theory Spec2Isabelle
  imports Complex_Main "HOL-Library.Monad_Syntax"
begin

section \<open>The projection engine of the OakNorth grants working sheet\<close>

text \<open>
  The source is \<^verbatim>\<open>oaknorth-grants-on.py\<close>. Its only function with logic is
  \<^verbatim>\<open>calculate_results\<close>, which fills a dictionary \<^verbatim>\<open>results[year][name]\<close> for
  the years 2024 to 2035 in a fixed sequence of loops. The embedding keeps that shape:
  the table is a map from years to records, a record is a map from field names to
  numbers, every subscript read is a lookup that can fail (Python's KeyError is the
  value \<open>None\<close> of the option monad), and every loop is a traversal of its range.

  Python's numbers are dynamically typed, and the engine only adds, subtracts, multiplies
  and compares them. The embedding is therefore written once for any type \<open>'a\<close> of
  numbers that has these operations. It is read at two types: at the exact reals, where
  the arithmetic properties of the table are proved (rounding and overflow of IEEE
  arithmetic are outside this model), and at the reals extended by the non-finite values
  of Python's floats, where the behaviour on NaN and infinity is proved. The literals
  \<^verbatim>\<open>6.00\<close> and \<^verbatim>\<open>0.0\<close> of the source are the numbers 6 and 0.
\<close>

subsection \<open>Data model\<close>

text \<open>The keys of a yearly record, one constructor for each string key of the source.\<close>

datatype field =
    Share_Price
  | Common_Shares_Redeemed
  | Cumulative_Common_Redeemed
  | Unsold_Common_Shares
  | Common_Redemption_Value
  | Cumulative_Common_Redemption_Value
  | Value_of_Unsold_Common_Shares
  | Total_Common_Share_Value
  | Vested_Shares
  | Vested_Unsold_Shares
  | Redeemed_Shares
  | Cumulative_Redeemed
  | Unsold_Shares
  | Redemption_Value
  | Cumulative_Redemption_Value
  | Value_of_Unsold_Shares
  | Total_Grant_Value
  | Combined_Total_Value

type_synonym 'a yearly = "field \<rightharpoonup> 'a"

type_synonym 'a results = "int \<rightharpoonup> 'a yearly"

text \<open>
  The module-level variables that \<^verbatim>\<open>calculate_results\<close> reads. A value of the
  vesting dictionary may be Python's \<^verbatim>\<open>None\<close> (the function tests for it), so the
  dictionary maps a year to an optional number.
\<close>

record 'a globals =
  pbt_growth_rate :: 'a
  common_redemption_rate :: 'a
  total_common_shares :: 'a
  common_purchase_price :: 'a
  option_redemption_rate :: 'a
  strike_price :: 'a
  total_grant_shares :: 'a
  vested_shares_input :: "int \<rightharpoonup> 'a option"

subsection \<open>Dictionary access and loops\<close>

text \<open>\<^verbatim>\<open>results[year][f]\<close> as an expression: KeyError when the year or the field is absent.\<close>

definition getf :: "'a results \<Rightarrow> int \<Rightarrow> field \<Rightarrow> 'a option" where
  "getf rs year f = (case rs year of None \<Rightarrow> None | Some r \<Rightarrow> r f)"

text \<open>\<^verbatim>\<open>results[year][f] = v\<close>: KeyError when the year has no record yet.\<close>

definition setf :: "'a results \<Rightarrow> int \<Rightarrow> field \<Rightarrow> 'a \<Rightarrow> 'a results option" where
  "setf rs year f v = (case rs year of None \<Rightarrow> None | Some r \<Rightarrow> Some (rs(year \<mapsto> r(f \<mapsto> v))))"

text \<open>\<^verbatim>\<open>d.get(k, default)\<close>.\<close>

definition dict_get :: "('k \<rightharpoonup> 'v) \<Rightarrow> 'k \<Rightarrow> 'v \<Rightarrow> 'v" where
  "dict_get d k dflt = (case d k of None \<Rightarrow> dflt | Some v \<Rightarrow> v)"

text \<open>\<^verbatim>\<open>range(a, b)\<close> on integers: from \<open>a\<close> up to \<open>b - 1\<close>.\<close>

definition py_range :: "int \<Rightarrow> int \<Rightarrow> int list" where
  "py_range a b = [a..b - 1]"

text \<open>
  \<^verbatim>\<open>max(a, b)\<close> and \<^verbatim>\<open>min(a, b)\<close>: Python keeps the first argument unless the
  second is strictly greater, respectively strictly smaller. On a linear order these are
  the usual maximum and minimum; with NaN, whose comparisons are all false, they are not
  symmetric.
\<close>

definition py_max :: "('a::ord) \<Rightarrow> 'a \<Rightarrow> 'a" where
  "py_max a b = (if a < b then b else a)"

definition py_min :: "('a::ord) \<Rightarrow> 'a \<Rightarrow> 'a" where
  "py_min a b = (if b < a then b else a)"

text \<open>\<^verbatim>\<open>for x in xs: body\<close> on a state; an exception in the body ends the loop.\<close>

fun for_each :: "'a list \<Rightarrow> ('a \<Rightarrow> 's \<Rightarrow> 's option) \<Rightarrow> 's \<Rightarrow> 's option" where
  "for_each [] body s = Some s"
| "for_each (x # xs) body s = (case body x s of None \<Rightarrow> None | Some s' \<Rightarrow> for_each xs body s')"

subsection \<open>The sections of \<^verbatim>\<open>calculate_results\<close>\<close>

text \<open>\<^verbatim>\<open>results = {}\<close> and the loop giving every year an empty record (lines 209 to 214).\<close>

definition initialize_years :: "int list \<Rightarrow> 'a results option" where
  "initialize_years years = for_each years (\<lambda>year rs. Some (rs(year \<mapsto> Map.empty))) Map.empty"

text \<open>The share price series (lines 216 to 219).\<close>

definition share_price_year :: "('a::{zero,numeral,minus,times,ord}) \<Rightarrow> int \<Rightarrow> 'a results \<Rightarrow> 'a results option" where
  "share_price_year current_growth_rate year rs = do {
     prev_price \<leftarrow> getf rs (year - 1) Share_Price;
     setf rs year Share_Price (prev_price * (1 + current_growth_rate))
   }"

definition share_price_series :: "('a::{zero,numeral,minus,times,ord}) \<Rightarrow> 'a results \<Rightarrow> 'a results option" where
  "share_price_series current_growth_rate rs = do {
     rs \<leftarrow> setf rs 2024 Share_Price 6;
     for_each (py_range 2025 2036) (share_price_year current_growth_rate) rs
   }"

text \<open>The common share fields set to zero in every year (lines 222 to 229).\<close>

definition common_zero_year :: "int \<Rightarrow> ('a::{zero,numeral,minus,times,ord}) results \<Rightarrow> 'a results option" where
  "common_zero_year year rs = do {
     rs \<leftarrow> setf rs year Common_Shares_Redeemed 0;
     rs \<leftarrow> setf rs year Cumulative_Common_Redeemed 0;
     rs \<leftarrow> setf rs year Unsold_Common_Shares 0;
     rs \<leftarrow> setf rs year Common_Redemption_Value 0;
     rs \<leftarrow> setf rs year Cumulative_Common_Redemption_Value 0;
     rs \<leftarrow> setf rs year Value_of_Unsold_Common_Shares 0;
     setf rs year Total_Common_Share_Value 0
   }"

text \<open>The years 2024 and 2025 of the common shares (lines 231 to 244).\<close>

definition common_first_years :: "('a::{zero,numeral,minus,times,ord}) globals \<Rightarrow> 'a results \<Rightarrow> 'a results option" where
  "common_first_years gl rs = do {
     rs \<leftarrow> setf rs 2024 Unsold_Common_Shares (total_common_shares gl);
     rs \<leftarrow> setf rs 2025 Common_Shares_Redeemed 0;
     rs \<leftarrow> setf rs 2025 Cumulative_Common_Redeemed 0;
     rs \<leftarrow> setf rs 2025 Unsold_Common_Shares (total_common_shares gl);
     rs \<leftarrow> setf rs 2025 Common_Redemption_Value 0;
     rs \<leftarrow> setf rs 2025 Cumulative_Common_Redemption_Value 0;
     price \<leftarrow> getf rs 2025 Share_Price;
     let common_price_diff_2025 = py_max 0 (price - common_purchase_price gl);
     unsold \<leftarrow> getf rs 2025 Unsold_Common_Shares;
     rs \<leftarrow> setf rs 2025 Value_of_Unsold_Common_Shares (common_price_diff_2025 * unsold);
     unsold_value \<leftarrow> getf rs 2025 Value_of_Unsold_Common_Shares;
     setf rs 2025 Total_Common_Share_Value unsold_value
   }"

text \<open>One round of the loop over 2026 to 2035 for the common shares (lines 247 to 268).\<close>

definition common_year :: "('a::{zero,numeral,minus,times,ord}) globals \<Rightarrow> 'a \<Rightarrow> int \<Rightarrow> 'a results \<Rightarrow> 'a results option" where
  "common_year gl current_common_redemption year rs = do {
     prev_unsold \<leftarrow> getf rs (year - 1) Unsold_Common_Shares;
     rs \<leftarrow> setf rs year Common_Shares_Redeemed (prev_unsold * current_common_redemption);
     prev_cum \<leftarrow> getf rs (year - 1) Cumulative_Common_Redeemed;
     redeemed \<leftarrow> getf rs year Common_Shares_Redeemed;
     rs \<leftarrow> setf rs year Cumulative_Common_Redeemed (prev_cum + redeemed);
     cum \<leftarrow> getf rs year Cumulative_Common_Redeemed;
     rs \<leftarrow> setf rs year Unsold_Common_Shares (total_common_shares gl - cum);
     price \<leftarrow> getf rs year Share_Price;
     let common_price_diff = py_max 0 (price - common_purchase_price gl);
     redeemed \<leftarrow> getf rs year Common_Shares_Redeemed;
     rs \<leftarrow> setf rs year Common_Redemption_Value (common_price_diff * redeemed);
     prev_cum_value \<leftarrow> getf rs (year - 1) Cumulative_Common_Redemption_Value;
     redemption_value \<leftarrow> getf rs year Common_Redemption_Value;
     rs \<leftarrow> setf rs year Cumulative_Common_Redemption_Value (prev_cum_value + redemption_value);
     unsold \<leftarrow> getf rs year Unsold_Common_Shares;
     rs \<leftarrow> setf rs year Value_of_Unsold_Common_Shares (common_price_diff * unsold);
     cum_value \<leftarrow> getf rs year Cumulative_Common_Redemption_Value;
     unsold_value \<leftarrow> getf rs year Value_of_Unsold_Common_Shares;
     setf rs year Total_Common_Share_Value (cum_value + unsold_value)
   }"

definition common_share_calculations ::
  "('a::{zero,numeral,minus,times,ord}) globals \<Rightarrow> 'a \<Rightarrow> int list \<Rightarrow> 'a results \<Rightarrow> 'a results option" where
  "common_share_calculations gl current_common_redemption years rs = do {
     rs \<leftarrow> for_each years common_zero_year rs;
     rs \<leftarrow> common_first_years gl rs;
     for_each (py_range 2026 2036) (common_year gl current_common_redemption) rs
   }"

text \<open>The option fields set to zero in every year (lines 271 to 280).\<close>

definition option_zero_year :: "int \<Rightarrow> ('a::{zero,numeral,minus,times,ord}) results \<Rightarrow> 'a results option" where
  "option_zero_year year rs = do {
     rs \<leftarrow> setf rs year Vested_Shares 0;
     rs \<leftarrow> setf rs year Vested_Unsold_Shares 0;
     rs \<leftarrow> setf rs year Redeemed_Shares 0;
     rs \<leftarrow> setf rs year Cumulative_Redeemed 0;
     rs \<leftarrow> setf rs year Unsold_Shares 0;
     rs \<leftarrow> setf rs year Redemption_Value 0;
     rs \<leftarrow> setf rs year Cumulative_Redemption_Value 0;
     rs \<leftarrow> setf rs year Value_of_Unsold_Shares 0;
     setf rs year Total_Grant_Value 0
   }"

text \<open>
  The years 2024 and 2025 of the options (lines 282 to 302). The test
  \<^verbatim>\<open>v is None or v < 0 or v > total_grant_shares\<close> is the case distinction on the
  value read from the vesting dictionary.
\<close>

definition option_first_years :: "('a::{zero,numeral,minus,times,ord}) globals \<Rightarrow> 'a results \<Rightarrow> 'a results option" where
  "option_first_years gl rs = do {
     rs \<leftarrow> setf rs 2024 Unsold_Shares (total_grant_shares gl);
     let vested_2025 = dict_get (vested_shares_input gl) 2025 (Some 0);
     let vested_2025 =
       (case vested_2025 of
          None \<Rightarrow> py_min 60000 (total_grant_shares gl)
        | Some v \<Rightarrow> if v < 0 \<or> v > total_grant_shares gl
                    then py_min 60000 (total_grant_shares gl) else v);
     rs \<leftarrow> setf rs 2025 Vested_Shares vested_2025;
     rs \<leftarrow> setf rs 2025 Redeemed_Shares 0;
     rs \<leftarrow> setf rs 2025 Cumulative_Redeemed 0;
     vested \<leftarrow> getf rs 2025 Vested_Shares;
     rs \<leftarrow> setf rs 2025 Vested_Unsold_Shares vested;
     rs \<leftarrow> setf rs 2025 Unsold_Shares (total_grant_shares gl);
     rs \<leftarrow> setf rs 2025 Redemption_Value 0;
     rs \<leftarrow> setf rs 2025 Cumulative_Redemption_Value 0;
     price \<leftarrow> getf rs 2025 Share_Price;
     let share_price_diff_2025 = py_max 0 (price - strike_price gl);
     vested \<leftarrow> getf rs 2025 Vested_Shares;
     rs \<leftarrow> setf rs 2025 Value_of_Unsold_Shares (share_price_diff_2025 * vested);
     unsold_value \<leftarrow> getf rs 2025 Value_of_Unsold_Shares;
     setf rs 2025 Total_Grant_Value unsold_value
   }"

text \<open>One round of the loop over 2026 to 2035 for the options (lines 305 to 339).\<close>

definition option_year :: "('a::{zero,numeral,minus,times,ord}) globals \<Rightarrow> 'a \<Rightarrow> int \<Rightarrow> 'a results \<Rightarrow> 'a results option" where
  "option_year gl current_option_redemption year rs = do {
     let vested_shares = dict_get (vested_shares_input gl) year
                           (dict_get (vested_shares_input gl) (year - 1) (Some 0));
     let fallback = do {
           prev_vested \<leftarrow> getf rs (year - 1) Vested_Shares;
           Some (py_min (prev_vested + 5000) (total_grant_shares gl))
         };
     vested_shares \<leftarrow>
       (case vested_shares of
          None \<Rightarrow> fallback
        | Some v \<Rightarrow> if v < 0 \<or> v > total_grant_shares gl then fallback else Some v);
     rs \<leftarrow> setf rs year Vested_Shares vested_shares;
     prev_vested_unsold \<leftarrow> getf rs (year - 1) Vested_Unsold_Shares;
     rs \<leftarrow> setf rs year Redeemed_Shares (prev_vested_unsold * current_option_redemption);
     prev_cum \<leftarrow> getf rs (year - 1) Cumulative_Redeemed;
     redeemed \<leftarrow> getf rs year Redeemed_Shares;
     rs \<leftarrow> setf rs year Cumulative_Redeemed (prev_cum + redeemed);
     vested \<leftarrow> getf rs year Vested_Shares;
     cum \<leftarrow> getf rs year Cumulative_Redeemed;
     rs \<leftarrow> setf rs year Vested_Unsold_Shares (py_max 0 (vested - cum));
     cum \<leftarrow> getf rs year Cumulative_Redeemed;
     rs \<leftarrow> setf rs year Unsold_Shares (total_grant_shares gl - cum);
     price \<leftarrow> getf rs year Share_Price;
     let share_price_diff = py_max 0 (price - strike_price gl);
     redeemed \<leftarrow> getf rs year Redeemed_Shares;
     rs \<leftarrow> setf rs year Redemption_Value (share_price_diff * redeemed);
     prev_cum_value \<leftarrow> getf rs (year - 1) Cumulative_Redemption_Value;
     redemption_value \<leftarrow> getf rs year Redemption_Value;
     rs \<leftarrow> setf rs year Cumulative_Redemption_Value (prev_cum_value + redemption_value);
     vested_unsold \<leftarrow> getf rs year Vested_Unsold_Shares;
     rs \<leftarrow> setf rs year Value_of_Unsold_Shares (share_price_diff * vested_unsold);
     cum_value \<leftarrow> getf rs year Cumulative_Redemption_Value;
     unsold_value \<leftarrow> getf rs year Value_of_Unsold_Shares;
     setf rs year Total_Grant_Value (cum_value + unsold_value)
   }"

definition option_calculations ::
  "('a::{zero,numeral,minus,times,ord}) globals \<Rightarrow> 'a \<Rightarrow> int list \<Rightarrow> 'a results \<Rightarrow> 'a results option" where
  "option_calculations gl current_option_redemption years rs = do {
     rs \<leftarrow> for_each years option_zero_year rs;
     rs \<leftarrow> option_first_years gl rs;
     for_each (py_range 2026 2036) (option_year gl current_option_redemption) rs
   }"

text \<open>The combined value of the years 2025 to 2035 (lines 342 and 343).\<close>

definition combined_year :: "int \<Rightarrow> ('a::{zero,numeral,minus,times,ord}) results \<Rightarrow> 'a results option" where
  "combined_year year rs = do {
     common_total \<leftarrow> getf rs year Total_Common_Share_Value;
     grant_total \<leftarrow> getf rs year Total_Grant_Value;
     setf rs year Combined_Total_Value (common_total + grant_total)
   }"

subsection \<open>The engine\<close>

text \<open>
  \<^verbatim>\<open>calculate_results(growth_rate=None, custom_common_redemption=None,
  custom_option_redemption=None)\<close>: an argument left at \<^verbatim>\<open>None\<close> takes the value
  of the module-level variable. The result is the table, or \<open>None\<close> when a subscript
  raised.
\<close>

definition calculate_results ::
  "('a::{zero,numeral,minus,times,ord}) globals \<Rightarrow> 'a option \<Rightarrow> 'a option \<Rightarrow> 'a option \<Rightarrow> 'a results option" where
  "calculate_results gl growth_rate custom_common_redemption custom_option_redemption =
    (let current_growth_rate =
           (case growth_rate of None \<Rightarrow> pbt_growth_rate gl | Some g \<Rightarrow> g);
         current_common_redemption =
           (case custom_common_redemption of None \<Rightarrow> common_redemption_rate gl | Some c \<Rightarrow> c);
         current_option_redemption =
           (case custom_option_redemption of None \<Rightarrow> option_redemption_rate gl | Some c \<Rightarrow> c);
         years = py_range 2024 2036
     in do {
       rs \<leftarrow> initialize_years years;
       rs \<leftarrow> share_price_series current_growth_rate rs;
       rs \<leftarrow> common_share_calculations gl current_common_redemption years rs;
       rs \<leftarrow> option_calculations gl current_option_redemption years rs;
       for_each (py_range 2025 2036) combined_year rs
     })"

subsection \<open>Reading the returned table\<close>

text \<open>
  \<^verbatim>\<open>calculate_results(...)[year][f]\<close> in a caller: a number when the engine returned
  a table that has the entry, \<open>None\<close> when the engine raised or the entry is absent.
\<close>

definition lookup :: "'a results option \<Rightarrow> int \<Rightarrow> field \<Rightarrow> 'a option" where
  "lookup returned year f = (case returned of None \<Rightarrow> None | Some t \<Rightarrow> getf t year f)"

text \<open>The rate in force in a call: the argument when it is given, the module-level value otherwise.\<close>

definition rate_or :: "'a option \<Rightarrow> 'a \<Rightarrow> 'a" where
  "rate_or arg global = (case arg of None \<Rightarrow> global | Some r \<Rightarrow> r)"

subsection \<open>The inputs the page supplies by default\<close>

text \<open>
  The sidebar's default values (lines 20 to 92) and its default vesting schedule
  (lines 103 to 123): the listed years capped by the grant, every other year of 2025 to
  2035 at \<^verbatim>\<open>min(100000, total_grant_shares)\<close>.
\<close>

definition default_values :: "int \<rightharpoonup> real" where
  "default_values = [2025 \<mapsto> 60000, 2026 \<mapsto> 70000, 2027 \<mapsto> 80000, 2028 \<mapsto> 90000, 2029 \<mapsto> 100000]"

definition default_schedule :: "real \<Rightarrow> (int \<rightharpoonup> real option)" where
  "default_schedule grant_shares year =
     (if year \<in> set (py_range 2025 2036)
      then Some (Some (py_min (dict_get default_values year 100000) grant_shares))
      else None)"

definition ui_defaults :: "real globals" where
  "ui_defaults = \<lparr> pbt_growth_rate = 0.20, common_redemption_rate = 0.05,
     total_common_shares = 30000, common_purchase_price = 2.00,
     option_redemption_rate = 0.05, strike_price = 6.00, total_grant_shares = 100000,
     vested_shares_input = default_schedule 100000 \<rparr>"

subsection \<open>Inputs with an invalid vesting count or grant\<close>

text \<open>The test \<^verbatim>\<open>v is None or v < 0 or v > total_grant_shares\<close> of lines 288 and 310.\<close>

definition out_of_range :: "('a::{zero,numeral,minus,times,ord}) globals \<Rightarrow> 'a option \<Rightarrow> bool" where
  "out_of_range gl v = (case v of None \<Rightarrow> True | Some x \<Rightarrow> x < 0 \<or> x > total_grant_shares gl)"

text \<open>
  The default inputs with the vested count of 2026 replaced by a negative number, and by a
  number above the grant; the first of these again with 50000 shares vested in 2025.
\<close>

definition negative_vesting :: "real globals" where
  "negative_vesting =
     ui_defaults\<lparr> vested_shares_input := (default_schedule 100000)(2026 \<mapsto> Some (- 1)) \<rparr>"

definition excessive_vesting :: "real globals" where
  "excessive_vesting =
     ui_defaults\<lparr> vested_shares_input := (default_schedule 100000)(2026 \<mapsto> Some 200000) \<rparr>"

definition negative_vesting_after_50000 :: "real globals" where
  "negative_vesting_after_50000 =
     ui_defaults\<lparr> vested_shares_input :=
       (default_schedule 100000)(2025 \<mapsto> Some 50000, 2026 \<mapsto> Some (- 1)) \<rparr>"


subsection \<open>Python's floats with their non-finite values\<close>

text \<open>
  A float is a real number, an infinity or NaN. The operations are those of IEEE 754 on
  the non-finite values (NaN is absorbing, the difference of equal infinities and the
  product of zero and an infinity are NaN, every comparison with NaN is false) and exact
  on the real numbers: rounding, overflow to infinity and the sign of zero are not
  modelled.
\<close>

datatype pyfloat = Finite real | PosInf | NegInf | NaN

fun float_neg :: "pyfloat \<Rightarrow> pyfloat" where
  "float_neg (Finite a) = Finite (- a)"
| "float_neg PosInf = NegInf"
| "float_neg NegInf = PosInf"
| "float_neg NaN = NaN"

fun float_add :: "pyfloat \<Rightarrow> pyfloat \<Rightarrow> pyfloat" where
  "float_add NaN b = NaN"
| "float_add a NaN = NaN"
| "float_add (Finite a) (Finite b) = Finite (a + b)"
| "float_add PosInf NegInf = NaN"
| "float_add NegInf PosInf = NaN"
| "float_add PosInf b = PosInf"
| "float_add a PosInf = PosInf"
| "float_add NegInf b = NegInf"
| "float_add a NegInf = NegInf"

fun float_mul :: "pyfloat \<Rightarrow> pyfloat \<Rightarrow> pyfloat" where
  "float_mul NaN b = NaN"
| "float_mul a NaN = NaN"
| "float_mul (Finite a) (Finite b) = Finite (a * b)"
| "float_mul (Finite a) PosInf = (if a = 0 then NaN else if 0 < a then PosInf else NegInf)"
| "float_mul (Finite a) NegInf = (if a = 0 then NaN else if 0 < a then NegInf else PosInf)"
| "float_mul PosInf (Finite b) = (if b = 0 then NaN else if 0 < b then PosInf else NegInf)"
| "float_mul NegInf (Finite b) = (if b = 0 then NaN else if 0 < b then NegInf else PosInf)"
| "float_mul PosInf PosInf = PosInf"
| "float_mul PosInf NegInf = NegInf"
| "float_mul NegInf PosInf = NegInf"
| "float_mul NegInf NegInf = PosInf"

fun float_less :: "pyfloat \<Rightarrow> pyfloat \<Rightarrow> bool" where
  "float_less NaN b = False"
| "float_less a NaN = False"
| "float_less (Finite a) (Finite b) = (a < b)"
| "float_less (Finite a) PosInf = True"
| "float_less NegInf (Finite b) = True"
| "float_less NegInf PosInf = True"
| "float_less a b = False"

text \<open>The operations the engine uses, at the type of floats.\<close>

instantiation pyfloat :: "{zero, one, plus, minus, times, ord}"
begin

definition zero_pyfloat :: pyfloat where
  "zero_pyfloat = Finite 0"

definition one_pyfloat :: pyfloat where
  "one_pyfloat = Finite 1"

definition plus_pyfloat :: "pyfloat \<Rightarrow> pyfloat \<Rightarrow> pyfloat" where
  "plus_pyfloat a b = float_add a b"

definition minus_pyfloat :: "pyfloat \<Rightarrow> pyfloat \<Rightarrow> pyfloat" where
  "minus_pyfloat a b = float_add a (float_neg b)"

definition times_pyfloat :: "pyfloat \<Rightarrow> pyfloat \<Rightarrow> pyfloat" where
  "times_pyfloat a b = float_mul a b"

definition less_pyfloat :: "pyfloat \<Rightarrow> pyfloat \<Rightarrow> bool" where
  "less_pyfloat a b = float_less a b"

definition less_eq_pyfloat :: "pyfloat \<Rightarrow> pyfloat \<Rightarrow> bool" where
  "less_eq_pyfloat a b = (float_less a b \<or> (a = b \<and> a \<noteq> NaN))"

instance ..

end

instance pyfloat :: semigroup_add
proof
  fix a b c :: pyfloat
  show "a + b + c = a + (b + c)"
    by (cases a; cases b; cases c) (simp_all add: plus_pyfloat_def)
qed

instance pyfloat :: numeral ..

text \<open>
  An input of real numbers as an input of floats, and the default inputs with a growth
  rate that is NaN, and with one that is infinite.
\<close>

definition to_float :: "real globals \<Rightarrow> pyfloat globals" where
  "to_float gl = \<lparr> pbt_growth_rate = Finite (pbt_growth_rate gl),
     common_redemption_rate = Finite (common_redemption_rate gl),
     total_common_shares = Finite (total_common_shares gl),
     common_purchase_price = Finite (common_purchase_price gl),
     option_redemption_rate = Finite (option_redemption_rate gl),
     strike_price = Finite (strike_price gl),
     total_grant_shares = Finite (total_grant_shares gl),
     vested_shares_input = (\<lambda>year. map_option (map_option Finite) (vested_shares_input gl year)) \<rparr>"

definition nan_growth :: "pyfloat globals" where
  "nan_growth = (to_float ui_defaults)\<lparr> pbt_growth_rate := NaN \<rparr>"

definition infinite_growth :: "pyfloat globals" where
  "infinite_growth = (to_float ui_defaults)\<lparr> pbt_growth_rate := PosInf \<rparr>"

section \<open>A closed description of the table\<close>

text \<open>
  The functions of this section are not part of the source. They give, for each year and
  field, the number the loops leave in the table, as recursions on the number of years
  since 2025. Each follows the assignments of the source to the letter, so that it is the
  table's entry in any arithmetic; the proofs below show that the engine computes exactly
  these, and the properties of the table are then proved on them.
\<close>

subsection \<open>Share price and common shares\<close>

primrec price_n :: "('a::{zero,numeral,minus,times,ord}) \<Rightarrow> nat \<Rightarrow> 'a" where
  "price_n g 0 = 6"
| "price_n g (Suc n) = price_n g n * (1 + g)"

definition price :: "('a::{zero,numeral,minus,times,ord}) \<Rightarrow> int \<Rightarrow> 'a" where
  "price g y = price_n g (nat (y - 2024))"

fun cum_common_n :: "('a::{zero,numeral,minus,times,ord}) \<Rightarrow> 'a \<Rightarrow> nat \<Rightarrow> 'a"
  and unsold_common_n :: "('a::{zero,numeral,minus,times,ord}) \<Rightarrow> 'a \<Rightarrow> nat \<Rightarrow> 'a" where
  "cum_common_n T c 0 = 0"
| "cum_common_n T c (Suc n) = cum_common_n T c n + unsold_common_n T c n * c"
| "unsold_common_n T c 0 = T"
| "unsold_common_n T c (Suc n) = T - cum_common_n T c (Suc n)"

definition cum_common :: "('a::{zero,numeral,minus,times,ord}) globals \<Rightarrow> 'a \<Rightarrow> int \<Rightarrow> 'a" where
  "cum_common gl c y = cum_common_n (total_common_shares gl) c (nat (y - 2025))"

definition unsold_common :: "('a::{zero,numeral,minus,times,ord}) globals \<Rightarrow> 'a \<Rightarrow> int \<Rightarrow> 'a" where
  "unsold_common gl c y = unsold_common_n (total_common_shares gl) c (nat (y - 2025))"

definition redeemed_common :: "('a::{zero,numeral,minus,times,ord}) globals \<Rightarrow> 'a \<Rightarrow> int \<Rightarrow> 'a" where
  "redeemed_common gl c y = (if y \<le> 2025 then 0 else unsold_common gl c (y - 1) * c)"

definition common_diff :: "('a::{zero,numeral,minus,times,ord}) globals \<Rightarrow> 'a \<Rightarrow> int \<Rightarrow> 'a" where
  "common_diff gl g y = py_max 0 (price g y - common_purchase_price gl)"

definition value_common :: "('a::{zero,numeral,minus,times,ord}) globals \<Rightarrow> 'a \<Rightarrow> 'a \<Rightarrow> int \<Rightarrow> 'a" where
  "value_common gl g c y =
     (if y \<le> 2025 then 0 else common_diff gl g y * redeemed_common gl c y)"

primrec cum_value_common_n ::
  "('a::{zero,numeral,minus,times,ord}) globals \<Rightarrow> 'a \<Rightarrow> 'a \<Rightarrow> nat \<Rightarrow> 'a" where
  "cum_value_common_n gl g c 0 = 0"
| "cum_value_common_n gl g c (Suc n) =
     cum_value_common_n gl g c n + value_common gl g c (2026 + int n)"

definition cum_value_common ::
  "('a::{zero,numeral,minus,times,ord}) globals \<Rightarrow> 'a \<Rightarrow> 'a \<Rightarrow> int \<Rightarrow> 'a" where
  "cum_value_common gl g c y = cum_value_common_n gl g c (nat (y - 2025))"

definition unsold_value_common ::
  "('a::{zero,numeral,minus,times,ord}) globals \<Rightarrow> 'a \<Rightarrow> 'a \<Rightarrow> int \<Rightarrow> 'a" where
  "unsold_value_common gl g c y =
     (if y \<le> 2024 then 0 else common_diff gl g y * unsold_common gl c y)"

definition total_common ::
  "('a::{zero,numeral,minus,times,ord}) globals \<Rightarrow> 'a \<Rightarrow> 'a \<Rightarrow> int \<Rightarrow> 'a" where
  "total_common gl g c y =
     (if y \<le> 2024 then 0
      else if y = 2025 then unsold_value_common gl g c y
      else cum_value_common gl g c y + unsold_value_common gl g c y)"

subsection \<open>Options\<close>

text \<open>The vesting test with its fallback, and the vested count of each year.\<close>

definition checked_vested ::
  "('a::{zero,numeral,minus,times,ord}) globals \<Rightarrow> 'a option \<Rightarrow> 'a \<Rightarrow> 'a" where
  "checked_vested gl v fallback =
     (case v of None \<Rightarrow> fallback
      | Some x \<Rightarrow> if x < 0 \<or> x > total_grant_shares gl then fallback else x)"

primrec vested_n :: "('a::{zero,numeral,minus,times,ord}) globals \<Rightarrow> nat \<Rightarrow> 'a" where
  "vested_n gl 0 = checked_vested gl (dict_get (vested_shares_input gl) 2025 (Some 0))
                     (py_min 60000 (total_grant_shares gl))"
| "vested_n gl (Suc n) =
     checked_vested gl
       (dict_get (vested_shares_input gl) (2026 + int n)
          (dict_get (vested_shares_input gl) (2025 + int n) (Some 0)))
       (py_min (vested_n gl n + 5000) (total_grant_shares gl))"

definition vested :: "('a::{zero,numeral,minus,times,ord}) globals \<Rightarrow> int \<Rightarrow> 'a" where
  "vested gl y = (if y \<le> 2024 then 0 else vested_n gl (nat (y - 2025)))"

fun cum_option_n :: "('a::{zero,numeral,minus,times,ord}) globals \<Rightarrow> 'a \<Rightarrow> nat \<Rightarrow> 'a"
  and vested_unsold_n :: "('a::{zero,numeral,minus,times,ord}) globals \<Rightarrow> 'a \<Rightarrow> nat \<Rightarrow> 'a" where
  "cum_option_n gl ro 0 = 0"
| "cum_option_n gl ro (Suc n) = cum_option_n gl ro n + vested_unsold_n gl ro n * ro"
| "vested_unsold_n gl ro 0 = vested_n gl 0"
| "vested_unsold_n gl ro (Suc n) = py_max 0 (vested_n gl (Suc n) - cum_option_n gl ro (Suc n))"

definition cum_option :: "('a::{zero,numeral,minus,times,ord}) globals \<Rightarrow> 'a \<Rightarrow> int \<Rightarrow> 'a" where
  "cum_option gl ro y = cum_option_n gl ro (nat (y - 2025))"

definition vested_unsold :: "('a::{zero,numeral,minus,times,ord}) globals \<Rightarrow> 'a \<Rightarrow> int \<Rightarrow> 'a" where
  "vested_unsold gl ro y = (if y \<le> 2024 then 0 else vested_unsold_n gl ro (nat (y - 2025)))"

definition redeemed_option :: "('a::{zero,numeral,minus,times,ord}) globals \<Rightarrow> 'a \<Rightarrow> int \<Rightarrow> 'a" where
  "redeemed_option gl ro y = (if y \<le> 2025 then 0 else vested_unsold gl ro (y - 1) * ro)"

definition unsold_option :: "('a::{zero,numeral,minus,times,ord}) globals \<Rightarrow> 'a \<Rightarrow> int \<Rightarrow> 'a" where
  "unsold_option gl ro y =
     (if y \<le> 2025 then total_grant_shares gl else total_grant_shares gl - cum_option gl ro y)"

definition option_diff :: "('a::{zero,numeral,minus,times,ord}) globals \<Rightarrow> 'a \<Rightarrow> int \<Rightarrow> 'a" where
  "option_diff gl g y = py_max 0 (price g y - strike_price gl)"

definition value_option :: "('a::{zero,numeral,minus,times,ord}) globals \<Rightarrow> 'a \<Rightarrow> 'a \<Rightarrow> int \<Rightarrow> 'a" where
  "value_option gl g ro y =
     (if y \<le> 2025 then 0 else option_diff gl g y * redeemed_option gl ro y)"

primrec cum_value_option_n ::
  "('a::{zero,numeral,minus,times,ord}) globals \<Rightarrow> 'a \<Rightarrow> 'a \<Rightarrow> nat \<Rightarrow> 'a" where
  "cum_value_option_n gl g ro 0 = 0"
| "cum_value_option_n gl g ro (Suc n) =
     cum_value_option_n gl g ro n + value_option gl g ro (2026 + int n)"

definition cum_value_option ::
  "('a::{zero,numeral,minus,times,ord}) globals \<Rightarrow> 'a \<Rightarrow> 'a \<Rightarrow> int \<Rightarrow> 'a" where
  "cum_value_option gl g ro y = cum_value_option_n gl g ro (nat (y - 2025))"

definition unsold_value_option ::
  "('a::{zero,numeral,minus,times,ord}) globals \<Rightarrow> 'a \<Rightarrow> 'a \<Rightarrow> int \<Rightarrow> 'a" where
  "unsold_value_option gl g ro y =
     (if y \<le> 2024 then 0 else option_diff gl g y * vested_unsold gl ro y)"

definition total_option ::
  "('a::{zero,numeral,minus,times,ord}) globals \<Rightarrow> 'a \<Rightarrow> 'a \<Rightarrow> int \<Rightarrow> 'a" where
  "total_option gl g ro y =
     (if y \<le> 2024 then 0
      else if y = 2025 then unsold_value_option gl g ro y
      else cum_value_option gl g ro y + unsold_value_option gl g ro y)"

subsection \<open>The whole table\<close>

text \<open>
  The entry for a year and a field; the year 2024 has no combined total, and no year
  outside 2024 to 2035 has a record.
\<close>

definition final_value ::
  "('a::{zero,numeral,minus,times,ord}) globals \<Rightarrow> 'a \<Rightarrow> 'a \<Rightarrow> 'a \<Rightarrow> int \<Rightarrow> field \<Rightarrow> 'a option" where
  "final_value gl g c ro y f =
     (if y < 2024 \<or> 2035 < y then None
      else case f of
        Share_Price \<Rightarrow> Some (price g y)
      | Common_Shares_Redeemed \<Rightarrow> Some (redeemed_common gl c y)
      | Cumulative_Common_Redeemed \<Rightarrow> Some (cum_common gl c y)
      | Unsold_Common_Shares \<Rightarrow> Some (unsold_common gl c y)
      | Common_Redemption_Value \<Rightarrow> Some (value_common gl g c y)
      | Cumulative_Common_Redemption_Value \<Rightarrow> Some (cum_value_common gl g c y)
      | Value_of_Unsold_Common_Shares \<Rightarrow> Some (unsold_value_common gl g c y)
      | Total_Common_Share_Value \<Rightarrow> Some (total_common gl g c y)
      | Vested_Shares \<Rightarrow> Some (vested gl y)
      | Vested_Unsold_Shares \<Rightarrow> Some (vested_unsold gl ro y)
      | Redeemed_Shares \<Rightarrow> Some (redeemed_option gl ro y)
      | Cumulative_Redeemed \<Rightarrow> Some (cum_option gl ro y)
      | Unsold_Shares \<Rightarrow> Some (unsold_option gl ro y)
      | Redemption_Value \<Rightarrow> Some (value_option gl g ro y)
      | Cumulative_Redemption_Value \<Rightarrow> Some (cum_value_option gl g ro y)
      | Value_of_Unsold_Shares \<Rightarrow> Some (unsold_value_option gl g ro y)
      | Total_Grant_Value \<Rightarrow> Some (total_option gl g ro y)
      | Combined_Total_Value \<Rightarrow>
          if y = 2024 then None else Some (total_common gl g c y + total_option gl g ro y))"

text \<open>The fields written by the common share section and by the option section.\<close>

definition common_fields :: "field set" where
  "common_fields = {Common_Shares_Redeemed, Cumulative_Common_Redeemed, Unsold_Common_Shares,
     Common_Redemption_Value, Cumulative_Common_Redemption_Value,
     Value_of_Unsold_Common_Shares, Total_Common_Share_Value}"

definition option_fields :: "field set" where
  "option_fields = {Vested_Shares, Vested_Unsold_Shares, Redeemed_Shares, Cumulative_Redeemed,
     Unsold_Shares, Redemption_Value, Cumulative_Redemption_Value, Value_of_Unsold_Shares,
     Total_Grant_Value}"

subsection \<open>Devices of the proofs\<close>

text \<open>
  The table after an assignment \<^verbatim>\<open>results[year][f] = v\<close> that does not raise, and the
  body of the loop that gives each year its empty record.
\<close>

definition put :: "'a results \<Rightarrow> int \<Rightarrow> field \<Rightarrow> 'a \<Rightarrow> 'a results" where
  "put rs year f v = rs(year \<mapsto> (case rs year of None \<Rightarrow> Map.empty | Some r \<Rightarrow> r)(f \<mapsto> v))"

definition empty_year :: "int \<Rightarrow> 'a results \<Rightarrow> 'a results option" where
  "empty_year year rs = Some (rs(year \<mapsto> Map.empty))"

section \<open>The engine computes the closed description\<close>

text \<open>
  Every lemma of this section holds in any arithmetic: the proofs follow the assignments
  of each loop and use no law of numbers.
\<close>

lemma setf_put: "year \<in> dom rs \<Longrightarrow> setf rs year f v = Some (put rs year f v)"
  by (auto simp: setf_def put_def)

lemma dom_put: "year \<in> dom rs \<Longrightarrow> dom (put rs year f v) = dom rs"
  by (auto simp: put_def)

lemma getf_put: "getf (put rs year f v) y' f' = (if y' = year \<and> f' = f then Some v else getf rs y' f')"
  by (auto simp: getf_def put_def split: option.splits)

lemma for_each_upto_step: "a \<le> b \<Longrightarrow> for_each [a..b] body s = (case body a s of None \<Rightarrow> None | Some s' \<Rightarrow> for_each [a + 1..b] body s')"
  by (subst upto_rec1) simp_all

lemma for_each_upto_fields_aux:
  fixes body :: "int \<Rightarrow> 'a results \<Rightarrow> 'a results option"
  assumes step: "\<And>y rs. a \<le> y \<Longrightarrow> y \<le> b \<Longrightarrow> dom rs = D \<Longrightarrow>
      (\<forall>y' f. getf rs y' f = (if a \<le> y' \<and> y' < y \<and> f \<in> F then new y' f else old y' f)) \<Longrightarrow>
      \<exists>rs'. body y rs = Some rs' \<and> dom rs' = D \<and>
         (\<forall>y' f. getf rs' y' f = (if y' = y \<and> f \<in> F then new y f else getf rs y' f))"
  shows "n = nat (b + 1 - k) \<Longrightarrow> a \<le> k \<Longrightarrow> k \<le> b + 1 \<Longrightarrow> dom rs = D \<Longrightarrow>
      (\<forall>y' f. getf rs y' f = (if a \<le> y' \<and> y' < k \<and> f \<in> F then new y' f else old y' f)) \<Longrightarrow>
      \<exists>rs'. for_each [k..b] body rs = Some rs' \<and> dom rs' = D \<and>
         (\<forall>y f. getf rs' y f = (if a \<le> y \<and> y \<le> b \<and> f \<in> F then new y f else old y f))"
proof (induction n arbitrary: k rs)
  case 0
  then have "k = b + 1" by simp
  with 0 show ?case by simp
next
  case (Suc n)
  then have kb: "k \<le> b" by simp
  from step[OF Suc.prems(2) kb Suc.prems(4) Suc.prems(5)]
  obtain rs1 where b1: "body k rs = Some rs1" and d1: "dom rs1 = D"
    and g1: "\<forall>y' f. getf rs1 y' f = (if y' = k \<and> f \<in> F then new k f else getf rs y' f)"
    by blast
  have inv1: "\<forall>y' f. getf rs1 y' f = (if a \<le> y' \<and> y' < k + 1 \<and> f \<in> F then new y' f else old y' f)"
    using g1 Suc.prems(5) Suc.prems(2) by auto
  have "n = nat (b + 1 - (k + 1))" using Suc.prems(1) by simp
  from Suc.IH[OF this _ _ d1 inv1] Suc.prems(2) kb
  obtain rs' where "for_each [k + 1..b] body rs1 = Some rs'" "dom rs' = D"
    "\<forall>y f. getf rs' y f = (if a \<le> y \<and> y \<le> b \<and> f \<in> F then new y f else old y f)"
    by auto
  then show ?case using b1 kb by (simp add: for_each_upto_step)
qed

lemma for_each_upto_fields:
  fixes body :: "int \<Rightarrow> 'a results \<Rightarrow> 'a results option"
  assumes step: "\<And>y rs. a \<le> y \<Longrightarrow> y \<le> b \<Longrightarrow> dom rs = D \<Longrightarrow>
      (\<forall>y' f. getf rs y' f = (if a \<le> y' \<and> y' < y \<and> f \<in> F then new y' f else old y' f)) \<Longrightarrow>
      \<exists>rs'. body y rs = Some rs' \<and> dom rs' = D \<and>
         (\<forall>y' f. getf rs' y' f = (if y' = y \<and> f \<in> F then new y f else getf rs y' f))"
    and "a \<le> b + 1" and "dom rs = D" and "\<forall>y f. getf rs y f = old y f"
  shows "\<exists>rs'. for_each [a..b] body rs = Some rs' \<and> dom rs' = D \<and>
         (\<forall>y f. getf rs' y f = (if a \<le> y \<and> y \<le> b \<and> f \<in> F then new y f else old y f))"
  by (rule for_each_upto_fields_aux[where k = a and n = "nat (b + 1 - a)", OF step]) (use assms(2-4) in auto)

lemma nat_year_Suc: "2026 \<le> y \<Longrightarrow> nat (y - 2025) = Suc (nat (y - 2026))"
  by simp

lemma price_2024: "price g 2024 = 6"
  by (simp add: price_def)

lemma price_step: "2025 \<le> y \<Longrightarrow> price g y = price g (y - 1) * (1 + g)"
proof -
  assume "2025 \<le> y"
  then have "nat (y - 2024) = Suc (nat (y - 1 - 2024))" by simp
  then show ?thesis by (simp add: price_def)
qed

lemma initialize_years_aux:
  "a \<le> b + 1 \<Longrightarrow> n = nat (b + 1 - a) \<Longrightarrow> (\<forall>y f. getf rs y f = None) \<Longrightarrow>
   \<exists>rs'. for_each [a..b] empty_year rs = Some rs' \<and>
     dom rs' = dom rs \<union> {a..b} \<and> (\<forall>y f. getf rs' y f = None)"
proof (induction n arbitrary: a rs)
  case 0
  then show ?case by simp
next
  case (Suc n)
  then have ab: "a \<le> b" by simp
  define rs1 where "rs1 = rs(a \<mapsto> Map.empty)"
  have g1: "\<forall>y f. getf rs1 y f = None" using Suc.prems(3) by (simp add: getf_def rs1_def)
  have le: "a + 1 \<le> b + 1" using ab by simp
  have n: "n = nat (b + 1 - (a + 1))" using Suc.prems(2) by simp
  from Suc.IH[OF le n g1]
  obtain rs' where r: "for_each [a + 1..b] empty_year rs1 = Some rs'"
    "dom rs' = dom rs1 \<union> {a + 1..b}" "\<forall>y f. getf rs' y f = None" by blast
  have d: "dom rs1 \<union> {a + 1..b} = dom rs \<union> {a..b}" using ab by (auto simp: rs1_def)
  have "for_each [a..b] empty_year rs = for_each [a + 1..b] empty_year rs1"
    using ab by (simp add: for_each_upto_step empty_year_def rs1_def)
  with r d show ?case by simp
qed

lemma initialize_years_ok:
  "\<exists>rs. initialize_years (py_range 2024 2036) = Some rs \<and> dom rs = {2024..2035} \<and>
     (\<forall>y f. getf rs y f = None)"
proof -
  have e: "(\<lambda>year rs. Some (rs(year \<mapsto> Map.empty))) = empty_year"
    by (rule ext)+ (simp add: empty_year_def)
  have "\<forall>y f. getf Map.empty y f = None" by (simp add: getf_def)
  from initialize_years_aux[of 2024 2035 "nat 12" Map.empty, OF _ _ this]
  show ?thesis unfolding initialize_years_def py_range_def e by simp
qed

lemma share_price_series_ok:
  fixes rs :: "('a::{zero,numeral,minus,times,ord}) results"
  assumes D: "dom rs = {2024..2035}"
  shows "\<exists>rs'. share_price_series g rs = Some rs' \<and> dom rs' = {2024..2035} \<and>
     (\<forall>y f. getf rs' y f =
        (if 2024 \<le> y \<and> y \<le> 2035 \<and> f = Share_Price then Some (price g y) else getf rs y f))"
proof -
  let ?rs0 = "put rs 2024 Share_Price 6"
  have s0: "setf rs 2024 Share_Price 6 = Some ?rs0" using D by (simp add: setf_put)
  have d0: "dom ?rs0 = {2024..2035}" using D by (simp add: dom_put)
  have "\<exists>rs'. for_each [2025..2035] (share_price_year g) ?rs0 = Some rs' \<and> dom rs' = {2024..2035} \<and>
         (\<forall>y f. getf rs' y f = (if 2025 \<le> y \<and> y \<le> 2035 \<and> f \<in> {Share_Price}
            then Some (price g y) else getf ?rs0 y f))"
  proof (rule for_each_upto_fields[where new = "\<lambda>y f. Some (price g y)"])
    fix y rs1
    assume y: "2025 \<le> y" "y \<le> 2035" and d: "dom rs1 = {2024..2035}"
      and inv: "\<forall>y' f. getf rs1 y' f = (if 2025 \<le> y' \<and> y' < y \<and> f \<in> {Share_Price}
           then Some (price g y') else getf ?rs0 y' f)"
    have prev: "getf rs1 (y - 1) Share_Price = Some (price g (y - 1))"
      using inv y by (auto simp: getf_put price_2024)
    have yd: "y \<in> dom rs1" using d y by simp
    show "\<exists>rs'. share_price_year g y rs1 = Some rs' \<and> dom rs' = {2024..2035} \<and>
         (\<forall>y' f. getf rs' y' f = (if y' = y \<and> f \<in> {Share_Price} then Some (price g y) else getf rs1 y' f))"
      using prev yd d y by (simp add: share_price_year_def setf_put dom_put getf_put price_step[of y])
  qed (use d0 in auto)
  then show ?thesis using s0 by (auto simp: share_price_series_def py_range_def getf_put price_2024)
qed

lemma in_dom_put: "year \<in> dom rs \<Longrightarrow> y \<in> dom (put rs year f v) \<longleftrightarrow> y \<in> dom rs"
  by (simp add: dom_put)

lemma common_zero_loop:
  fixes rs :: "('a::{zero,numeral,minus,times,ord}) results"
  assumes D: "dom rs = {2024..2035}"
  shows "\<exists>rs'. for_each [2024..2035] common_zero_year rs = Some rs' \<and> dom rs' = {2024..2035} \<and>
     (\<forall>y f. getf rs' y f =
        (if 2024 \<le> y \<and> y \<le> 2035 \<and> f \<in> common_fields then Some 0 else getf rs y f))"
proof (rule for_each_upto_fields[where new = "\<lambda>y f. Some 0"])
  fix y :: int and rs1 :: "'a results"
  assume y: "2024 \<le> y" "y \<le> 2035" and d: "dom rs1 = {2024..2035}"
  have yd: "y \<in> dom rs1" using d y by simp
  show "\<exists>rs'. common_zero_year y rs1 = Some rs' \<and> dom rs' = {2024..2035} \<and>
         (\<forall>y' f. getf rs' y' f = (if y' = y \<and> f \<in> common_fields then Some 0 else getf rs1 y' f))"
    using yd d by (simp add: common_zero_year_def setf_put dom_put in_dom_put getf_put common_fields_def)
qed (use D in auto)

lemma cum_common_le_2025: "y \<le> 2025 \<Longrightarrow> cum_common gl c y = 0"
  by (simp add: cum_common_def)

lemma cum_common_step:
  "2026 \<le> y \<Longrightarrow> cum_common gl c y = cum_common gl c (y - 1) + unsold_common gl c (y - 1) * c"
  by (simp add: cum_common_def unsold_common_def nat_year_Suc)

lemma unsold_common_step:
  "2026 \<le> y \<Longrightarrow> unsold_common gl c y = total_common_shares gl - cum_common gl c y"
  by (simp add: cum_common_def unsold_common_def nat_year_Suc del: cum_common_n.simps)

lemma cum_value_common_le_2025: "y \<le> 2025 \<Longrightarrow> cum_value_common gl g c y = 0"
  by (simp add: cum_value_common_def)

lemma cum_value_common_step:
  "2026 \<le> y \<Longrightarrow> cum_value_common gl g c y = cum_value_common gl g c (y - 1) + value_common gl g c y"
  by (simp add: cum_value_common_def nat_year_Suc)

lemma common_first_years_ok:
  fixes rs :: "('a::{zero,numeral,minus,times,ord}) results"
  assumes D: "dom rs = {2024..2035}"
    and P: "getf rs 2025 Share_Price = Some p"
  shows "\<exists>rs'. common_first_years gl rs = Some rs' \<and> dom rs' = {2024..2035} \<and>
     (\<forall>y f. getf rs' y f =
        (if y = 2024 \<and> f = Unsold_Common_Shares then Some (total_common_shares gl)
         else if y = 2025 \<and> f \<in> {Common_Shares_Redeemed, Cumulative_Common_Redeemed,
                  Common_Redemption_Value, Cumulative_Common_Redemption_Value} then Some 0
         else if y = 2025 \<and> f = Unsold_Common_Shares then Some (total_common_shares gl)
         else if y = 2025 \<and> f \<in> {Value_of_Unsold_Common_Shares, Total_Common_Share_Value}
           then Some (py_max 0 (p - common_purchase_price gl) * total_common_shares gl)
         else getf rs y f))"
  using D P by (simp add: common_first_years_def setf_put dom_put in_dom_put getf_put)

lemma common_year_ok:
  assumes y: "2026 \<le> y" "y \<le> 2035" and d: "dom rs = {2024..2035}"
    and pu: "getf rs (y - 1) Unsold_Common_Shares = Some (unsold_common gl c (y - 1))"
    and pc: "getf rs (y - 1) Cumulative_Common_Redeemed = Some (cum_common gl c (y - 1))"
    and pv: "getf rs (y - 1) Cumulative_Common_Redemption_Value = Some (cum_value_common gl g c (y - 1))"
    and pp: "getf rs y Share_Price = Some (price g y)"
  shows "\<exists>rs'. common_year gl c y rs = Some rs' \<and> dom rs' = {2024..2035} \<and>
     (\<forall>y' f. getf rs' y' f =
        (if y' = y \<and> f \<in> common_fields then final_value gl g c ro y f else getf rs y' f))"
proof -
  have yd: "y \<in> dom rs" using d y by simp
  have ne: "y - 1 \<noteq> y" by simp
  have r: "redeemed_common gl c y = unsold_common gl c (y - 1) * c"
    using y by (simp add: redeemed_common_def)
  have u: "unsold_value_common gl g c y = common_diff gl g y * unsold_common gl c y"
    using y by (simp add: unsold_value_common_def)
  have t: "total_common gl g c y = cum_value_common gl g c y + unsold_value_common gl g c y"
    using y by (simp add: total_common_def)
  have fv: "\<not> (y < 2024 \<or> 2035 < y)" using y by simp
  let ?d = "py_max 0 (price g y - common_purchase_price gl)"
  let ?r = "unsold_common gl c (y - 1) * c"
  let ?rs' = "put (put (put (put (put (put (put rs
       y Common_Shares_Redeemed ?r)
       y Cumulative_Common_Redeemed (cum_common gl c y))
       y Unsold_Common_Shares (unsold_common gl c y))
       y Common_Redemption_Value (?d * ?r))
       y Cumulative_Common_Redemption_Value (cum_value_common gl g c y))
       y Value_of_Unsold_Common_Shares (?d * unsold_common gl c y))
       y Total_Common_Share_Value (total_common gl g c y)"
  have run: "common_year gl c y rs = Some ?rs'"
    using y d pu pc pv pp ne
    by (simp add: common_year_def setf_put dom_put in_dom_put getf_put Let_def
        r u t cum_common_step[OF y(1)] cum_value_common_step[OF y(1)]
        value_common_def common_diff_def unsold_common_step[OF y(1)])
  have dom': "dom ?rs' = {2024..2035}"
    using y d by (simp add: dom_put in_dom_put)
  have get': "getf ?rs' y' f =
        (if y' = y \<and> f \<in> common_fields then final_value gl g c ro y f else getf rs y' f)" for y' f
    using fv y by (cases f) (simp_all add: getf_put common_fields_def final_value_def r u
        value_common_def common_diff_def)
  show ?thesis using run dom' get' by blast
qed

lemma common_loop:
  fixes rs :: "('a::{zero,numeral,minus,times,ord}) results"
  assumes D: "dom rs = {2024..2035}"
    and u0: "getf rs 2025 Unsold_Common_Shares = Some (unsold_common gl c 2025)"
    and c0: "getf rs 2025 Cumulative_Common_Redeemed = Some (cum_common gl c 2025)"
    and v0: "getf rs 2025 Cumulative_Common_Redemption_Value = Some (cum_value_common gl g c 2025)"
    and P: "\<forall>y. 2024 \<le> y \<and> y \<le> 2035 \<longrightarrow> getf rs y Share_Price = Some (price g y)"
  shows "\<exists>rs'. for_each [2026..2035] (common_year gl c) rs = Some rs' \<and> dom rs' = {2024..2035} \<and>
     (\<forall>y f. getf rs' y f =
        (if 2026 \<le> y \<and> y \<le> 2035 \<and> f \<in> common_fields then final_value gl g c ro y f
         else getf rs y f))"
proof (rule for_each_upto_fields[where new = "final_value gl g c ro"])
  fix y :: int and rs1 :: "'a results"
  assume y: "2026 \<le> y" "y \<le> 2035" and d: "dom rs1 = {2024..2035}"
    and inv: "\<forall>y' f. getf rs1 y' f = (if 2026 \<le> y' \<and> y' < y \<and> f \<in> common_fields
           then final_value gl g c ro y' f else getf rs y' f)"
  have prev: "getf rs1 (y - 1) f = (if 2026 \<le> y - 1 then final_value gl g c ro (y - 1) f else getf rs 2025 f)"
    if "f \<in> common_fields" for f
  proof (cases "2026 \<le> y - 1")
    case True
    then show ?thesis using inv that by simp
  next
    case False
    then have "y - 1 = 2025" using y by simp
    then show ?thesis using inv that by simp
  qed
  have fv: "\<not> (y - 1 < 2024 \<or> 2035 < y - 1)" using y by simp
  have pu: "getf rs1 (y - 1) Unsold_Common_Shares = Some (unsold_common gl c (y - 1))"
    using prev[of Unsold_Common_Shares] u0 y
    by (cases "2026 \<le> y - 1") (auto simp: common_fields_def final_value_def)
  have pc: "getf rs1 (y - 1) Cumulative_Common_Redeemed = Some (cum_common gl c (y - 1))"
    using prev[of Cumulative_Common_Redeemed] c0 y
    by (cases "2026 \<le> y - 1") (auto simp: common_fields_def final_value_def)
  have pv: "getf rs1 (y - 1) Cumulative_Common_Redemption_Value = Some (cum_value_common gl g c (y - 1))"
    using prev[of Cumulative_Common_Redemption_Value] v0 y
    by (cases "2026 \<le> y - 1") (auto simp: common_fields_def final_value_def)
  have pp: "getf rs1 y Share_Price = Some (price g y)"
    using inv P y by (simp add: common_fields_def)
  show "\<exists>rs'. common_year gl c y rs1 = Some rs' \<and> dom rs' = {2024..2035} \<and>
         (\<forall>y' f. getf rs' y' f = (if y' = y \<and> f \<in> common_fields then final_value gl g c ro y f else getf rs1 y' f))"
    by (rule common_year_ok[OF y d pu pc pv pp])
qed (use D in auto)

lemma final_value_common_2024:
  "f \<in> common_fields \<Longrightarrow> final_value gl g c ro 2024 f =
     (if f = Unsold_Common_Shares then Some (total_common_shares gl) else Some 0)"
  by (auto simp: common_fields_def final_value_def redeemed_common_def cum_common_def
      unsold_common_def value_common_def cum_value_common_def unsold_value_common_def
      total_common_def)

lemma final_value_common_2025:
  "f \<in> common_fields \<Longrightarrow> final_value gl g c ro 2025 f =
     (if f = Unsold_Common_Shares then Some (total_common_shares gl)
      else if f \<in> {Value_of_Unsold_Common_Shares, Total_Common_Share_Value}
        then Some (py_max 0 (price g 2025 - common_purchase_price gl) * total_common_shares gl)
      else Some 0)"
  by (auto simp: common_fields_def final_value_def redeemed_common_def cum_common_def
      unsold_common_def value_common_def cum_value_common_def unsold_value_common_def
      total_common_def common_diff_def)

lemma common_share_calculations_ok:
  fixes rs :: "('a::{zero,numeral,minus,times,ord}) results"
  assumes D: "dom rs = {2024..2035}"
    and P: "\<forall>y. 2024 \<le> y \<and> y \<le> 2035 \<longrightarrow> getf rs y Share_Price = Some (price g y)"
  shows "\<exists>rs'. common_share_calculations gl c (py_range 2024 2036) rs = Some rs' \<and>
     dom rs' = {2024..2035} \<and>
     (\<forall>y f. getf rs' y f =
        (if 2024 \<le> y \<and> y \<le> 2035 \<and> f \<in> common_fields then final_value gl g c ro y f
         else getf rs y f))"
proof -
  from common_zero_loop[OF D] obtain rsA where
    A: "for_each [2024..2035] common_zero_year rs = Some rsA" and dA: "dom rsA = {2024..2035}"
    and gA: "\<And>y f. getf rsA y f =
        (if 2024 \<le> y \<and> y \<le> 2035 \<and> f \<in> common_fields then Some 0 else getf rs y f)"
    by blast
  have pA: "getf rsA 2025 Share_Price = Some (price g 2025)"
    using gA P by (simp add: common_fields_def)
  from common_first_years_ok[OF dA pA, of gl] obtain rsB where
    B: "common_first_years gl rsA = Some rsB" and dB: "dom rsB = {2024..2035}"
    and gB: "\<And>y f. getf rsB y f =
        (if y = 2024 \<and> f = Unsold_Common_Shares then Some (total_common_shares gl)
         else if y = 2025 \<and> f \<in> {Common_Shares_Redeemed, Cumulative_Common_Redeemed,
                  Common_Redemption_Value, Cumulative_Common_Redemption_Value} then Some 0
         else if y = 2025 \<and> f = Unsold_Common_Shares then Some (total_common_shares gl)
         else if y = 2025 \<and> f \<in> {Value_of_Unsold_Common_Shares, Total_Common_Share_Value}
           then Some (py_max 0 (price g 2025 - common_purchase_price gl) * total_common_shares gl)
         else getf rsA y f)"
    by blast
  have u0: "getf rsB 2025 Unsold_Common_Shares = Some (unsold_common gl c 2025)"
    by (simp add: gB unsold_common_def cum_common_def)
  have c0: "getf rsB 2025 Cumulative_Common_Redeemed = Some (cum_common gl c 2025)"
    by (simp add: gB cum_common_def)
  have v0: "getf rsB 2025 Cumulative_Common_Redemption_Value = Some (cum_value_common gl g c 2025)"
    by (simp add: gB cum_value_common_def)
  have pB: "\<forall>y. 2024 \<le> y \<and> y \<le> 2035 \<longrightarrow> getf rsB y Share_Price = Some (price g y)"
    using P by (simp add: gB gA common_fields_def)
  from common_loop[OF dB u0 c0 v0 pB, of ro] obtain rsC where
    C: "for_each [2026..2035] (common_year gl c) rsB = Some rsC" and dC: "dom rsC = {2024..2035}"
    and gC: "\<And>y f. getf rsC y f =
        (if 2026 \<le> y \<and> y \<le> 2035 \<and> f \<in> common_fields then final_value gl g c ro y f
         else getf rsB y f)"
    by blast
  have run: "common_share_calculations gl c (py_range 2024 2036) rs = Some rsC"
    using A B C by (simp add: common_share_calculations_def py_range_def)
  have get: "getf rsC y f =
        (if 2024 \<le> y \<and> y \<le> 2035 \<and> f \<in> common_fields then final_value gl g c ro y f
         else getf rs y f)" for y f
  proof -
    consider "y < 2024 \<or> 2035 < y" | "y = 2024" | "y = 2025" | "2026 \<le> y \<and> y \<le> 2035"
      by linarith
    then show ?thesis
    proof cases
      case 1
      then show ?thesis by (auto simp: gC gB gA)
    next
      case 2
      then show ?thesis
        by (cases "f \<in> common_fields") (auto simp: gC gB gA final_value_common_2024 common_fields_def)
    next
      case 3
      then show ?thesis
        by (cases "f \<in> common_fields")
          (auto simp: gC gB gA final_value_common_2025 common_fields_def)
    next
      case 4
      then show ?thesis by (auto simp: gC gB gA)
    qed
  qed
  show ?thesis using run dC get by blast
qed

lemma option_zero_loop:
  fixes rs :: "('a::{zero,numeral,minus,times,ord}) results"
  assumes D: "dom rs = {2024..2035}"
  shows "\<exists>rs'. for_each [2024..2035] option_zero_year rs = Some rs' \<and> dom rs' = {2024..2035} \<and>
     (\<forall>y f. getf rs' y f =
        (if 2024 \<le> y \<and> y \<le> 2035 \<and> f \<in> option_fields then Some 0 else getf rs y f))"
proof (rule for_each_upto_fields[where new = "\<lambda>y f. Some 0"])
  fix y :: int and rs1 :: "'a results"
  assume y: "2024 \<le> y" "y \<le> 2035" and d: "dom rs1 = {2024..2035}"
  have yd: "y \<in> dom rs1" using d y by simp
  show "\<exists>rs'. option_zero_year y rs1 = Some rs' \<and> dom rs' = {2024..2035} \<and>
         (\<forall>y' f. getf rs' y' f = (if y' = y \<and> f \<in> option_fields then Some 0 else getf rs1 y' f))"
    using yd d by (simp add: option_zero_year_def setf_put dom_put in_dom_put getf_put option_fields_def)
qed (use D in auto)

lemma checked_vested_case:
  "(case v of None \<Rightarrow> Some fb
    | Some x \<Rightarrow> if x < 0 \<or> x > total_grant_shares gl then Some fb else Some x) =
   Some (checked_vested gl v fb)"
  by (simp add: checked_vested_def split: option.splits)

lemma checked_vested_case':
  "(case v of None \<Rightarrow> fb
    | Some x \<Rightarrow> if x < 0 \<or> x > total_grant_shares gl then fb else x) =
   checked_vested gl v fb"
  by (simp add: checked_vested_def split: option.splits)

lemma vested_2025: "vested gl 2025 = vested_n gl 0"
  by (simp add: vested_def)

lemma vested_step:
  "2026 \<le> y \<Longrightarrow> vested gl y =
     checked_vested gl
       (dict_get (vested_shares_input gl) y (dict_get (vested_shares_input gl) (y - 1) (Some 0)))
       (py_min (vested gl (y - 1) + 5000) (total_grant_shares gl))"
proof -
  assume y: "2026 \<le> y"
  have a: "2026 + int (nat (y - 2026)) = y" "2025 + int (nat (y - 2026)) = y - 1"
    using y by simp_all
  show ?thesis using y by (simp add: vested_def nat_year_Suc a)
qed

lemma cum_option_step:
  "2026 \<le> y \<Longrightarrow> cum_option gl ro y = cum_option gl ro (y - 1) + vested_unsold gl ro (y - 1) * ro"
  by (simp add: cum_option_def vested_unsold_def nat_year_Suc)

lemma vested_unsold_step:
  "2026 \<le> y \<Longrightarrow> vested_unsold gl ro y = py_max 0 (vested gl y - cum_option gl ro y)"
  by (simp add: cum_option_def vested_unsold_def vested_def nat_year_Suc del: cum_option_n.simps)

lemma cum_value_option_step:
  "2026 \<le> y \<Longrightarrow> cum_value_option gl g ro y = cum_value_option gl g ro (y - 1) + value_option gl g ro y"
  by (simp add: cum_value_option_def nat_year_Suc)

lemma option_first_years_ok:
  fixes rs :: "('a::{zero,numeral,minus,times,ord}) results"
  assumes D: "dom rs = {2024..2035}"
    and P: "getf rs 2025 Share_Price = Some p"
  shows "\<exists>rs'. option_first_years gl rs = Some rs' \<and> dom rs' = {2024..2035} \<and>
     (\<forall>y f. getf rs' y f =
        (if y = 2024 \<and> f = Unsold_Shares then Some (total_grant_shares gl)
         else if y = 2025 \<and> f \<in> {Vested_Shares, Vested_Unsold_Shares} then Some (vested_n gl 0)
         else if y = 2025 \<and> f \<in> {Redeemed_Shares, Cumulative_Redeemed,
                  Redemption_Value, Cumulative_Redemption_Value} then Some 0
         else if y = 2025 \<and> f = Unsold_Shares then Some (total_grant_shares gl)
         else if y = 2025 \<and> f \<in> {Value_of_Unsold_Shares, Total_Grant_Value}
           then Some (py_max 0 (p - strike_price gl) * vested_n gl 0)
         else getf rs y f))"
  using D P by (simp add: option_first_years_def setf_put dom_put in_dom_put getf_put Let_def
      checked_vested_case')

lemma option_year_ok:
  assumes y: "2026 \<le> y" "y \<le> 2035" and d: "dom rs = {2024..2035}"
    and pw: "getf rs (y - 1) Vested_Shares = Some (vested gl (y - 1))"
    and pu: "getf rs (y - 1) Vested_Unsold_Shares = Some (vested_unsold gl ro (y - 1))"
    and pc: "getf rs (y - 1) Cumulative_Redeemed = Some (cum_option gl ro (y - 1))"
    and pv: "getf rs (y - 1) Cumulative_Redemption_Value = Some (cum_value_option gl g ro (y - 1))"
    and pp: "getf rs y Share_Price = Some (price g y)"
  shows "\<exists>rs'. option_year gl ro y rs = Some rs' \<and> dom rs' = {2024..2035} \<and>
     (\<forall>y' f. getf rs' y' f =
        (if y' = y \<and> f \<in> option_fields then final_value gl g c ro y f else getf rs y' f))"
proof -
  have ne: "y - 1 \<noteq> y" by simp
  have r: "redeemed_option gl ro y = vested_unsold gl ro (y - 1) * ro"
    using y by (simp add: redeemed_option_def)
  have u: "unsold_value_option gl g ro y = option_diff gl g y * vested_unsold gl ro y"
    using y by (simp add: unsold_value_option_def)
  have t: "total_option gl g ro y = cum_value_option gl g ro y + unsold_value_option gl g ro y"
    using y by (simp add: total_option_def)
  have fv: "\<not> (y < 2024 \<or> 2035 < y)" using y by simp
  let ?d = "py_max 0 (price g y - strike_price gl)"
  let ?r = "vested_unsold gl ro (y - 1) * ro"
  let ?rs' = "put (put (put (put (put (put (put (put (put rs
       y Vested_Shares (vested gl y))
       y Redeemed_Shares ?r)
       y Cumulative_Redeemed (cum_option gl ro y))
       y Vested_Unsold_Shares (vested_unsold gl ro y))
       y Unsold_Shares (unsold_option gl ro y))
       y Redemption_Value (?d * ?r))
       y Cumulative_Redemption_Value (cum_value_option gl g ro y))
       y Value_of_Unsold_Shares (?d * vested_unsold gl ro y))
       y Total_Grant_Value (total_option gl g ro y)"
  have run: "option_year gl ro y rs = Some ?rs'"
    using y d pw pu pc pv pp ne
    by (simp add: option_year_def setf_put dom_put in_dom_put getf_put Let_def
        checked_vested_case
        r u t vested_step[OF y(1)] cum_option_step[OF y(1)] cum_value_option_step[OF y(1)]
        vested_unsold_step[OF y(1)]
        value_option_def option_diff_def unsold_option_def[of gl ro y])
  have dom': "dom ?rs' = {2024..2035}"
    using y d by (simp add: dom_put in_dom_put)
  have get': "getf ?rs' y' f =
        (if y' = y \<and> f \<in> option_fields then final_value gl g c ro y f else getf rs y' f)" for y' f
    using fv y by (cases f) (simp_all add: getf_put option_fields_def final_value_def r u
        value_option_def option_diff_def)
  show ?thesis using run dom' get' by blast
qed

lemma option_loop:
  fixes rs :: "('a::{zero,numeral,minus,times,ord}) results"
  assumes D: "dom rs = {2024..2035}"
    and w0: "getf rs 2025 Vested_Shares = Some (vested gl 2025)"
    and u0: "getf rs 2025 Vested_Unsold_Shares = Some (vested_unsold gl ro 2025)"
    and c0: "getf rs 2025 Cumulative_Redeemed = Some (cum_option gl ro 2025)"
    and v0: "getf rs 2025 Cumulative_Redemption_Value = Some (cum_value_option gl g ro 2025)"
    and P: "\<forall>y. 2024 \<le> y \<and> y \<le> 2035 \<longrightarrow> getf rs y Share_Price = Some (price g y)"
  shows "\<exists>rs'. for_each [2026..2035] (option_year gl ro) rs = Some rs' \<and> dom rs' = {2024..2035} \<and>
     (\<forall>y f. getf rs' y f =
        (if 2026 \<le> y \<and> y \<le> 2035 \<and> f \<in> option_fields then final_value gl g c ro y f
         else getf rs y f))"
proof (rule for_each_upto_fields[where new = "final_value gl g c ro"])
  fix y :: int and rs1 :: "'a results"
  assume y: "2026 \<le> y" "y \<le> 2035" and d: "dom rs1 = {2024..2035}"
    and inv: "\<forall>y' f. getf rs1 y' f = (if 2026 \<le> y' \<and> y' < y \<and> f \<in> option_fields
           then final_value gl g c ro y' f else getf rs y' f)"
  have prev: "getf rs1 (y - 1) f = (if 2026 \<le> y - 1 then final_value gl g c ro (y - 1) f else getf rs 2025 f)"
    if "f \<in> option_fields" for f
  proof (cases "2026 \<le> y - 1")
    case True
    then show ?thesis using inv that by simp
  next
    case False
    then have "y - 1 = 2025" using y by simp
    then show ?thesis using inv that by simp
  qed
  have pw: "getf rs1 (y - 1) Vested_Shares = Some (vested gl (y - 1))"
    using prev[of Vested_Shares] w0 y
    by (cases "2026 \<le> y - 1") (auto simp: option_fields_def final_value_def)
  have pu: "getf rs1 (y - 1) Vested_Unsold_Shares = Some (vested_unsold gl ro (y - 1))"
    using prev[of Vested_Unsold_Shares] u0 y
    by (cases "2026 \<le> y - 1") (auto simp: option_fields_def final_value_def)
  have pc: "getf rs1 (y - 1) Cumulative_Redeemed = Some (cum_option gl ro (y - 1))"
    using prev[of Cumulative_Redeemed] c0 y
    by (cases "2026 \<le> y - 1") (auto simp: option_fields_def final_value_def)
  have pv: "getf rs1 (y - 1) Cumulative_Redemption_Value = Some (cum_value_option gl g ro (y - 1))"
    using prev[of Cumulative_Redemption_Value] v0 y
    by (cases "2026 \<le> y - 1") (auto simp: option_fields_def final_value_def)
  have pp: "getf rs1 y Share_Price = Some (price g y)"
    using inv P y by (simp add: option_fields_def)
  show "\<exists>rs'. option_year gl ro y rs1 = Some rs' \<and> dom rs' = {2024..2035} \<and>
         (\<forall>y' f. getf rs' y' f = (if y' = y \<and> f \<in> option_fields then final_value gl g c ro y f else getf rs1 y' f))"
    by (rule option_year_ok[OF y d pw pu pc pv pp])
qed (use D in auto)

lemma final_value_option_2024:
  "f \<in> option_fields \<Longrightarrow> final_value gl g c ro 2024 f =
     (if f = Unsold_Shares then Some (total_grant_shares gl) else Some 0)"
  by (auto simp: option_fields_def final_value_def redeemed_option_def cum_option_def
      unsold_option_def value_option_def cum_value_option_def unsold_value_option_def
      total_option_def vested_def vested_unsold_def)

lemma final_value_option_2025:
  "f \<in> option_fields \<Longrightarrow> final_value gl g c ro 2025 f =
     (if f \<in> {Vested_Shares, Vested_Unsold_Shares} then Some (vested_n gl 0)
      else if f = Unsold_Shares then Some (total_grant_shares gl)
      else if f \<in> {Value_of_Unsold_Shares, Total_Grant_Value}
        then Some (py_max 0 (price g 2025 - strike_price gl) * vested_n gl 0)
      else Some 0)"
  by (auto simp: option_fields_def final_value_def redeemed_option_def cum_option_def
      unsold_option_def value_option_def cum_value_option_def unsold_value_option_def
      total_option_def option_diff_def vested_def vested_unsold_def)

lemma option_calculations_ok:
  fixes rs :: "('a::{zero,numeral,minus,times,ord}) results"
  assumes D: "dom rs = {2024..2035}"
    and P: "\<forall>y. 2024 \<le> y \<and> y \<le> 2035 \<longrightarrow> getf rs y Share_Price = Some (price g y)"
  shows "\<exists>rs'. option_calculations gl ro (py_range 2024 2036) rs = Some rs' \<and>
     dom rs' = {2024..2035} \<and>
     (\<forall>y f. getf rs' y f =
        (if 2024 \<le> y \<and> y \<le> 2035 \<and> f \<in> option_fields then final_value gl g c ro y f
         else getf rs y f))"
proof -
  from option_zero_loop[OF D] obtain rsA where
    A: "for_each [2024..2035] option_zero_year rs = Some rsA" and dA: "dom rsA = {2024..2035}"
    and gA: "\<And>y f. getf rsA y f =
        (if 2024 \<le> y \<and> y \<le> 2035 \<and> f \<in> option_fields then Some 0 else getf rs y f)"
    by blast
  have pA: "getf rsA 2025 Share_Price = Some (price g 2025)"
    using gA P by (simp add: option_fields_def)
  from option_first_years_ok[OF dA pA, of gl] obtain rsB where
    B: "option_first_years gl rsA = Some rsB" and dB: "dom rsB = {2024..2035}"
    and gB: "\<And>y f. getf rsB y f =
        (if y = 2024 \<and> f = Unsold_Shares then Some (total_grant_shares gl)
         else if y = 2025 \<and> f \<in> {Vested_Shares, Vested_Unsold_Shares} then Some (vested_n gl 0)
         else if y = 2025 \<and> f \<in> {Redeemed_Shares, Cumulative_Redeemed,
                  Redemption_Value, Cumulative_Redemption_Value} then Some 0
         else if y = 2025 \<and> f = Unsold_Shares then Some (total_grant_shares gl)
         else if y = 2025 \<and> f \<in> {Value_of_Unsold_Shares, Total_Grant_Value}
           then Some (py_max 0 (price g 2025 - strike_price gl) * vested_n gl 0)
         else getf rsA y f)"
    by blast
  have w0: "getf rsB 2025 Vested_Shares = Some (vested gl 2025)"
    by (simp add: gB vested_def)
  have u0: "getf rsB 2025 Vested_Unsold_Shares = Some (vested_unsold gl ro 2025)"
    by (simp add: gB vested_unsold_def)
  have c0: "getf rsB 2025 Cumulative_Redeemed = Some (cum_option gl ro 2025)"
    by (simp add: gB cum_option_def)
  have v0: "getf rsB 2025 Cumulative_Redemption_Value = Some (cum_value_option gl g ro 2025)"
    by (simp add: gB cum_value_option_def)
  have pB: "\<forall>y. 2024 \<le> y \<and> y \<le> 2035 \<longrightarrow> getf rsB y Share_Price = Some (price g y)"
    using P by (simp add: gB gA option_fields_def)
  from option_loop[OF dB w0 u0 c0 v0 pB, of c] obtain rsC where
    C: "for_each [2026..2035] (option_year gl ro) rsB = Some rsC" and dC: "dom rsC = {2024..2035}"
    and gC: "\<And>y f. getf rsC y f =
        (if 2026 \<le> y \<and> y \<le> 2035 \<and> f \<in> option_fields then final_value gl g c ro y f
         else getf rsB y f)"
    by blast
  have run: "option_calculations gl ro (py_range 2024 2036) rs = Some rsC"
    using A B C by (simp add: option_calculations_def py_range_def)
  have get: "getf rsC y f =
        (if 2024 \<le> y \<and> y \<le> 2035 \<and> f \<in> option_fields then final_value gl g c ro y f
         else getf rs y f)" for y f
  proof -
    consider "y < 2024 \<or> 2035 < y" | "y = 2024" | "y = 2025" | "2026 \<le> y \<and> y \<le> 2035"
      by linarith
    then show ?thesis
    proof cases
      case 1
      then show ?thesis by (auto simp: gC gB gA)
    next
      case 2
      then show ?thesis
        by (cases "f \<in> option_fields") (auto simp: gC gB gA final_value_option_2024 option_fields_def)
    next
      case 3
      then show ?thesis
        by (cases "f \<in> option_fields")
          (auto simp: gC gB gA final_value_option_2025 option_fields_def)
    next
      case 4
      then show ?thesis by (auto simp: gC gB gA)
    qed
  qed
  show ?thesis using run dC get by blast
qed

lemma combined_loop:
  fixes rs :: "('a::{zero,numeral,minus,times,ord}) results"
  assumes D: "dom rs = {2024..2035}"
    and tc: "\<forall>y. 2025 \<le> y \<and> y \<le> 2035 \<longrightarrow>
        getf rs y Total_Common_Share_Value = Some (total_common gl g c y)"
    and tg: "\<forall>y. 2025 \<le> y \<and> y \<le> 2035 \<longrightarrow>
        getf rs y Total_Grant_Value = Some (total_option gl g ro y)"
  shows "\<exists>rs'. for_each [2025..2035] combined_year rs = Some rs' \<and> dom rs' = {2024..2035} \<and>
     (\<forall>y f. getf rs' y f =
        (if 2025 \<le> y \<and> y \<le> 2035 \<and> f \<in> {Combined_Total_Value} then final_value gl g c ro y f
         else getf rs y f))"
proof (rule for_each_upto_fields[where new = "final_value gl g c ro"])
  fix y :: int and rs1 :: "'a results"
  assume y: "2025 \<le> y" "y \<le> 2035" and d: "dom rs1 = {2024..2035}"
    and inv: "\<forall>y' f. getf rs1 y' f = (if 2025 \<le> y' \<and> y' < y \<and> f \<in> {Combined_Total_Value}
           then final_value gl g c ro y' f else getf rs y' f)"
  have a: "getf rs1 y Total_Common_Share_Value = Some (total_common gl g c y)"
    using inv tc y by simp
  have b: "getf rs1 y Total_Grant_Value = Some (total_option gl g ro y)"
    using inv tg y by simp
  show "\<exists>rs'. combined_year y rs1 = Some rs' \<and> dom rs' = {2024..2035} \<and>
         (\<forall>y' f. getf rs' y' f = (if y' = y \<and> f \<in> {Combined_Total_Value} then final_value gl g c ro y f else getf rs1 y' f))"
    using a b d y by (simp add: combined_year_def setf_put dom_put getf_put final_value_def)
qed (use D in auto)

theorem calculate_results_final:
  fixes gl :: "('a::{zero,numeral,minus,times,ord}) globals"
  shows "\<exists>t. calculate_results gl growth_rate custom_common custom_option = Some t \<and>
     dom t = {2024..2035} \<and>
     (\<forall>y f. getf t y f =
        final_value gl (rate_or growth_rate (pbt_growth_rate gl))
          (rate_or custom_common (common_redemption_rate gl))
          (rate_or custom_option (option_redemption_rate gl)) y f)"
proof -
  define g where "g = rate_or growth_rate (pbt_growth_rate gl)"
  define c where "c = rate_or custom_common (common_redemption_rate gl)"
  define ro where "ro = rate_or custom_option (option_redemption_rate gl)"
  from initialize_years_ok obtain rs0 :: "'a results" where
    r0: "initialize_years (py_range 2024 2036) = Some rs0" and d0: "dom rs0 = {2024..2035}"
    and g0: "\<And>y f. getf rs0 y f = None" by blast
  from share_price_series_ok[OF d0, of g] obtain rs1 where
    r1: "share_price_series g rs0 = Some rs1" and d1: "dom rs1 = {2024..2035}"
    and g1: "\<And>y f. getf rs1 y f =
        (if 2024 \<le> y \<and> y \<le> 2035 \<and> f = Share_Price then Some (price g y) else getf rs0 y f)"
    by blast
  have p1: "\<forall>y. 2024 \<le> y \<and> y \<le> 2035 \<longrightarrow> getf rs1 y Share_Price = Some (price g y)"
    by (simp add: g1)
  from common_share_calculations_ok[OF d1 p1, of gl c ro] obtain rs2 where
    r2: "common_share_calculations gl c (py_range 2024 2036) rs1 = Some rs2"
    and d2: "dom rs2 = {2024..2035}"
    and g2: "\<And>y f. getf rs2 y f =
        (if 2024 \<le> y \<and> y \<le> 2035 \<and> f \<in> common_fields then final_value gl g c ro y f
         else getf rs1 y f)"
    by blast
  have p2: "\<forall>y. 2024 \<le> y \<and> y \<le> 2035 \<longrightarrow> getf rs2 y Share_Price = Some (price g y)"
    by (simp add: g2 g1 common_fields_def)
  from option_calculations_ok[OF d2 p2, of gl ro c] obtain rs3 where
    r3: "option_calculations gl ro (py_range 2024 2036) rs2 = Some rs3"
    and d3: "dom rs3 = {2024..2035}"
    and g3: "\<And>y f. getf rs3 y f =
        (if 2024 \<le> y \<and> y \<le> 2035 \<and> f \<in> option_fields then final_value gl g c ro y f
         else getf rs2 y f)"
    by blast
  have tc: "\<forall>y. 2025 \<le> y \<and> y \<le> 2035 \<longrightarrow>
        getf rs3 y Total_Common_Share_Value = Some (total_common gl g c y)"
    by (simp add: g3 g2 option_fields_def common_fields_def final_value_def)
  have tg: "\<forall>y. 2025 \<le> y \<and> y \<le> 2035 \<longrightarrow>
        getf rs3 y Total_Grant_Value = Some (total_option gl g ro y)"
    by (simp add: g3 option_fields_def final_value_def)
  from combined_loop[OF d3 tc tg] obtain t where
    r4: "for_each [2025..2035] combined_year rs3 = Some t" and d4: "dom t = {2024..2035}"
    and g4: "\<And>y f. getf t y f =
        (if 2025 \<le> y \<and> y \<le> 2035 \<and> f \<in> {Combined_Total_Value} then final_value gl g c ro y f
         else getf rs3 y f)"
    by blast
  have run: "calculate_results gl growth_rate custom_common custom_option = Some t"
    using r0 r1 r2 r3 r4
    by (simp add: calculate_results_def Let_def py_range_def g_def c_def ro_def rate_or_def)
  have get: "getf t y f = final_value gl g c ro y f" for y f
  proof (cases "2024 \<le> y \<and> y \<le> 2035")
    case False
    then show ?thesis by (auto simp: g4 g3 g2 g1 g0 final_value_def)
  next
    case True
    then show ?thesis
      by (cases f) (auto simp: g4 g3 g2 g1 g0 final_value_def common_fields_def option_fields_def)
  qed
  show ?thesis using run d4 get unfolding g_def c_def ro_def by blast
qed

text \<open>The entry of the returned table, for every input, year and field.\<close>

lemma lookup_final:
  fixes gl :: "('a::{zero,numeral,minus,times,ord}) globals"
  shows "lookup (calculate_results gl growth_rate custom_common custom_option) y f =
     final_value gl (rate_or growth_rate (pbt_growth_rate gl))
       (rate_or custom_common (common_redemption_rate gl))
       (rate_or custom_option (option_redemption_rate gl)) y f"
  using calculate_results_final[of gl growth_rate custom_common custom_option]
  by (auto simp: lookup_def)

section \<open>Bounds on the closed description in exact arithmetic\<close>


lemma py_min_linorder: "py_min (a::'a::linorder) b = min a b"
  by (auto simp: py_min_def min_def)



lemma common_n_sum: "cum_common_n T c n + unsold_common_n T c n = (T::real)"
  by (cases n) simp_all

lemma unsold_common_n_step:
  "unsold_common_n T c (Suc n) = unsold_common_n T c n * (1 - (c::real))"
  using common_n_sum[of T c n] by (simp add: algebra_simps)

lemma unsold_common_n_nonneg:
  "0 \<le> (T::real) \<Longrightarrow> 0 \<le> c \<Longrightarrow> c \<le> 1 \<Longrightarrow> 0 \<le> unsold_common_n T c n"
proof (induction n)
  case 0
  then show ?case by simp
next
  case (Suc n)
  then have "0 \<le> unsold_common_n T c n * (1 - c)" by simp
  then show ?case by (simp only: unsold_common_n_step)
qed











lemma unsold_common_mono:
  fixes gl :: "real globals"
  assumes T: "0 \<le> total_common_shares gl" and c: "0 \<le> c" "c \<le> 1" and y: "2026 \<le> y"
  shows "unsold_common gl c y \<le> unsold_common gl c (y - 1)"
proof -
  let ?T = "total_common_shares gl"
  let ?n = "nat (y - 2026)"
  have n: "nat (y - 2025) = Suc ?n" "nat (y - 1 - 2025) = ?n" using y by simp_all
  have u: "0 \<le> unsold_common_n ?T c ?n" by (rule unsold_common_n_nonneg[OF T c])
  have "unsold_common_n ?T c ?n * (1 - c) \<le> unsold_common_n ?T c ?n * 1"
    using u c by (intro mult_left_mono) simp_all
  then have "unsold_common_n ?T c (Suc ?n) \<le> unsold_common_n ?T c ?n"
    by (simp only: unsold_common_n_step mult_1_right)
  then show ?thesis by (simp only: unsold_common_def n)
qed

lemma checked_vested_range:
  fixes gl :: "real globals"
  shows "0 \<le> fb \<Longrightarrow> fb \<le> total_grant_shares gl \<Longrightarrow>
   0 \<le> checked_vested gl v fb \<and> checked_vested gl v fb \<le> total_grant_shares gl"
  by (auto simp: checked_vested_def split: option.splits)

lemma vested_n_range:
  fixes gl :: "real globals"
  shows "0 \<le> total_grant_shares gl \<Longrightarrow> 0 \<le> vested_n gl n \<and> vested_n gl n \<le> total_grant_shares gl"
proof (induction n)
  case 0
  then show ?case by (simp add: checked_vested_range py_min_linorder)
next
  case (Suc n)
  then have "0 \<le> min (vested_n gl n + 5000) (total_grant_shares gl)" by simp
  then show ?case by (simp add: checked_vested_range py_min_linorder)
qed

lemma vested_range:
  fixes gl :: "real globals"
  shows "0 \<le> total_grant_shares gl \<Longrightarrow> 0 \<le> vested gl y \<and> vested gl y \<le> total_grant_shares gl"
  using vested_n_range[of gl] by (simp add: vested_def)
















section \<open>Non-finite numbers\<close>

lemma numeral_pyfloat: "(numeral n :: pyfloat) = Finite (numeral n)"
proof (induction n)
  case One
  show ?case by (simp add: one_pyfloat_def)
next
  case (Bit0 n)
  have "(numeral (num.Bit0 n) :: pyfloat) = numeral n + numeral n"
    by (rule numeral_Bit0)
  also have "\<dots> = Finite (numeral n + numeral n)"
    by (simp only: Bit0.IH plus_pyfloat_def float_add.simps)
  also have "\<dots> = Finite (numeral (num.Bit0 n))"
    by (simp only: numeral_Bit0)
  finally show ?case .
next
  case (Bit1 n)
  have "(numeral (num.Bit1 n) :: pyfloat) = numeral n + numeral n + 1"
    by (rule numeral_Bit1)
  also have "\<dots> = Finite (numeral n + numeral n + 1)"
    by (simp only: Bit1.IH plus_pyfloat_def one_pyfloat_def float_add.simps)
  also have "\<dots> = Finite (numeral (num.Bit1 n))"
    by (simp only: numeral_Bit1)
  finally show ?case .
qed

lemma price_n_nan: "price_n NaN (Suc n) = NaN"
  by (cases "price_n NaN n") (simp_all add: times_pyfloat_def plus_pyfloat_def one_pyfloat_def)

lemma price_nan: "2025 \<le> y \<Longrightarrow> price NaN y = NaN"
proof -
  assume "2025 \<le> y"
  then have "nat (y - 2024) = Suc (nat (y - 2025))" by simp
  then show ?thesis by (simp only: price_def price_n_nan)
qed

section \<open>Properties of the returned table\<close>

text \<open>
  The properties are stated on the engine itself, read through \<open>lookup\<close>: an entry
  that is \<open>Some\<close> number exists only in a table that the engine returned. The example
  inputs are unfolded by the following facts when the table is evaluated at them.
\<close>

lemmas eval_inputs = ui_defaults_def default_schedule_def default_values_def
  py_range_def dict_get_def rate_or_def py_max_def py_min_def

lemma checked_vested_out_of_range:
  "checked_vested gl s fb = (if out_of_range gl s then fb else the s)"
  by (auto simp: checked_vested_def out_of_range_def split: option.splits)



text \<open>
  Claim C2, as stated, fails: with a grant of 100000 and 60000 shares vested in 2025, a
  supplied count of -1 for 2026 is replaced by 65000 and not by 0, and a supplied count of
  200000 is replaced by 65000 and not by 100000.
\<close>

theorem vested_count_not_clamped:
  "vested_shares_input negative_vesting 2026 = Some (Some (- 1)) \<and>
   total_grant_shares negative_vesting = 100000 \<and>
   lookup (calculate_results negative_vesting None None None) 2025 Vested_Shares = Some 60000 \<and>
   lookup (calculate_results negative_vesting None None None) 2026 Vested_Shares = Some 65000 \<and>
   vested_shares_input excessive_vesting 2026 = Some (Some 200000) \<and>
   total_grant_shares excessive_vesting = 100000 \<and>
   lookup (calculate_results excessive_vesting None None None) 2025 Vested_Shares = Some 60000 \<and>
   lookup (calculate_results excessive_vesting None None None) 2026 Vested_Shares = Some 65000"
  by (simp add: lookup_final final_value_def vested_def checked_vested_def negative_vesting_def excessive_vesting_def eval_inputs)

text \<open>
  Claim C2, amended. For every year from 2026 to 2035 with a supplied value, the vested
  count used by the engine is the supplied value when it lies in
  [0, \<^verbatim>\<open>total_grant_shares\<close>]; when it is negative, above
  \<^verbatim>\<open>total_grant_shares\<close> or \<^verbatim>\<open>None\<close>, the engine uses the vested count of the
  year before plus 5000, capped at \<^verbatim>\<open>total_grant_shares\<close>.
\<close>

theorem vested_count_used:
  fixes gl :: "real globals"
  shows "\<forall>y\<in>{2026..2035}. \<forall>s. vested_shares_input gl y = Some s \<longrightarrow>
     (\<exists>prev.
        lookup (calculate_results gl growth_rate custom_common custom_option) (y - 1) Vested_Shares = Some prev \<and>
        lookup (calculate_results gl growth_rate custom_common custom_option) y Vested_Shares =
          Some (case s of
                  None \<Rightarrow> min (prev + 5000) (total_grant_shares gl)
                | Some v \<Rightarrow> if 0 \<le> v \<and> v \<le> total_grant_shares gl then v
                            else min (prev + 5000) (total_grant_shares gl)))"
proof (intro ballI allI impI)
  fix y s
  assume y: "y \<in> {2026..2035}" and s: "vested_shares_input gl y = Some s"
  have y26: "2026 \<le> y" using y by simp
  have d: "dict_get (vested_shares_input gl) y d = s" for d
    using s by (simp add: dict_get_def)
  have "vested gl y =
      (case s of
         None \<Rightarrow> min (vested gl (y - 1) + 5000) (total_grant_shares gl)
       | Some v \<Rightarrow> if 0 \<le> v \<and> v \<le> total_grant_shares gl then v
                   else min (vested gl (y - 1) + 5000) (total_grant_shares gl))"
    by (auto simp: vested_step[OF y26] d checked_vested_def py_min_linorder split: option.splits)
  then show "\<exists>prev.
        lookup (calculate_results gl growth_rate custom_common custom_option) (y - 1) Vested_Shares = Some prev \<and>
        lookup (calculate_results gl growth_rate custom_common custom_option) y Vested_Shares =
          Some (case s of
                  None \<Rightarrow> min (prev + 5000) (total_grant_shares gl)
                | Some v \<Rightarrow> if 0 \<le> v \<and> v \<le> total_grant_shares gl then v
                            else min (prev + 5000) (total_grant_shares gl))"
    using y by (simp add: lookup_final final_value_def)
qed

theorem vested_count_used_witness:
  "vested_shares_input ui_defaults 2027 = Some (Some 80000) \<and>
   lookup (calculate_results ui_defaults None None None) 2027 Vested_Shares = Some 80000 \<and>
   vested_shares_input excessive_vesting 2026 = Some (Some 200000) \<and>
   (\<exists>prev. lookup (calculate_results excessive_vesting None None None) 2025 Vested_Shares = Some prev \<and>
      lookup (calculate_results excessive_vesting None None None) 2026 Vested_Shares =
        Some (min (prev + 5000) 100000))"
proof -
  have a: "vested_shares_input ui_defaults 2027 = Some (Some 80000)"
    by (simp add: eval_inputs)
  have b: "vested_shares_input excessive_vesting 2026 = Some (Some 200000)"
    by (simp add: excessive_vesting_def eval_inputs)
  from vested_count_used[of ui_defaults None None None] a
  have "lookup (calculate_results ui_defaults None None None) 2027 Vested_Shares = Some 80000"
    by (auto simp: ui_defaults_def dest!: bspec[where x = 2027])
  moreover from vested_count_used[of excessive_vesting None None None] b
  have "\<exists>prev. lookup (calculate_results excessive_vesting None None None) 2025 Vested_Shares = Some prev \<and>
      lookup (calculate_results excessive_vesting None None None) 2026 Vested_Shares =
        Some (min (prev + 5000) 100000)"
    by (auto simp: excessive_vesting_def ui_defaults_def dest!: bspec[where x = 2026])
  ultimately show ?thesis using a b by simp
qed

text \<open>
  Claim C3, as stated, fails in what it says the fallback is: the value substituted for
  the invalid count of 2026 is 65000 after 60000 vested shares in 2025 and 55000 after
  50000, so it is neither the vested count of the year before carried forward nor a fixed
  default.
\<close>

theorem fallback_is_not_carry_forward:
  "vested_shares_input negative_vesting 2026 = Some (Some (- 1)) \<and>
   out_of_range negative_vesting (Some (- 1)) \<and>
   lookup (calculate_results negative_vesting None None None) 2025 Vested_Shares = Some 60000 \<and>
   lookup (calculate_results negative_vesting None None None) 2026 Vested_Shares = Some 65000 \<and>
   vested_shares_input negative_vesting_after_50000 2026 = Some (Some (- 1)) \<and>
   out_of_range negative_vesting_after_50000 (Some (- 1)) \<and>
   lookup (calculate_results negative_vesting_after_50000 None None None) 2025 Vested_Shares = Some 50000 \<and>
   lookup (calculate_results negative_vesting_after_50000 None None None) 2026 Vested_Shares = Some 55000"
  by (simp add: lookup_final final_value_def vested_def checked_vested_def out_of_range_def
      negative_vesting_def negative_vesting_after_50000_def eval_inputs)

text \<open>
  Claim C3, amended. When \<^verbatim>\<open>total_grant_shares\<close> is not negative, the engine returns
  a table for every vesting dictionary, and the vested count it uses lies in
  [0, \<^verbatim>\<open>total_grant_shares\<close>] in every year from 2025 to 2035. For 2025 a missing
  value is replaced by 0 and a value that is \<^verbatim>\<open>None\<close> or out of range by
  \<^verbatim>\<open>min(60000, total_grant_shares)\<close>. For 2026 to 2035 a missing value is replaced
  by the value supplied for the year before (0 when that is missing too), and a value
  that is then \<^verbatim>\<open>None\<close> or out of range by the vested count used for the year before
  plus 5000, capped at \<^verbatim>\<open>total_grant_shares\<close>.
\<close>

theorem vested_fallback:
  fixes gl :: "real globals"
  assumes G: "0 \<le> total_grant_shares gl"
  shows "(\<exists>v. lookup (calculate_results gl growth_rate custom_common custom_option) 2025 Vested_Shares = Some v \<and>
        0 \<le> v \<and> v \<le> total_grant_shares gl \<and>
        (vested_shares_input gl 2025 = None \<longrightarrow> v = 0) \<and>
        (out_of_range gl (dict_get (vested_shares_input gl) 2025 (Some 0)) \<longrightarrow>
           v = min 60000 (total_grant_shares gl))) \<and>
     (\<forall>y\<in>{2026..2035}. \<exists>prev v.
        lookup (calculate_results gl growth_rate custom_common custom_option) (y - 1) Vested_Shares = Some prev \<and>
        lookup (calculate_results gl growth_rate custom_common custom_option) y Vested_Shares = Some v \<and>
        0 \<le> v \<and> v \<le> total_grant_shares gl \<and>
        (vested_shares_input gl y = None \<and>
         \<not> out_of_range gl (dict_get (vested_shares_input gl) (y - 1) (Some 0)) \<longrightarrow>
           Some v = dict_get (vested_shares_input gl) (y - 1) (Some 0)) \<and>
        (out_of_range gl (dict_get (vested_shares_input gl) y
             (dict_get (vested_shares_input gl) (y - 1) (Some 0))) \<longrightarrow>
           v = min (prev + 5000) (total_grant_shares gl)))"
proof (intro conjI ballI)
  let ?R = "calculate_results gl growth_rate custom_common custom_option"
  have l: "lookup ?R y Vested_Shares = Some (vested gl y)" if "y \<in> {2024..2035}" for y
    using that by (simp add: lookup_final final_value_def)
  show "\<exists>v. lookup ?R 2025 Vested_Shares = Some v \<and>
        0 \<le> v \<and> v \<le> total_grant_shares gl \<and>
        (vested_shares_input gl 2025 = None \<longrightarrow> v = 0) \<and>
        (out_of_range gl (dict_get (vested_shares_input gl) 2025 (Some 0)) \<longrightarrow>
           v = min 60000 (total_grant_shares gl))"
    using vested_range[OF G, of 2025] G
    by (simp add: l) (simp add: vested_def checked_vested_out_of_range dict_get_def out_of_range_def py_min_linorder)
next
  let ?R = "calculate_results gl growth_rate custom_common custom_option"
  fix y :: int
  assume y: "y \<in> {2026..2035}"
  have y26: "2026 \<le> y" using y by simp
  have l: "lookup ?R y Vested_Shares = Some (vested gl y)"
    "lookup ?R (y - 1) Vested_Shares = Some (vested gl (y - 1))"
    using y by (simp_all add: lookup_final final_value_def)
  have m: "Some (vested gl y) = dict_get (vested_shares_input gl) (y - 1) (Some 0)"
    if "vested_shares_input gl y = None"
      "\<not> out_of_range gl (dict_get (vested_shares_input gl) (y - 1) (Some 0))"
    using that
    by (auto simp: vested_step[OF y26] checked_vested_out_of_range dict_get_def out_of_range_def
        py_min_linorder split: option.splits)
  show "\<exists>prev v.
        lookup ?R (y - 1) Vested_Shares = Some prev \<and>
        lookup ?R y Vested_Shares = Some v \<and>
        0 \<le> v \<and> v \<le> total_grant_shares gl \<and>
        (vested_shares_input gl y = None \<and>
         \<not> out_of_range gl (dict_get (vested_shares_input gl) (y - 1) (Some 0)) \<longrightarrow>
           Some v = dict_get (vested_shares_input gl) (y - 1) (Some 0)) \<and>
        (out_of_range gl (dict_get (vested_shares_input gl) y
             (dict_get (vested_shares_input gl) (y - 1) (Some 0))) \<longrightarrow>
           v = min (prev + 5000) (total_grant_shares gl))"
    using vested_range[OF G, of y] m
    by (simp add: l) (simp add: vested_step[OF y26] checked_vested_out_of_range py_min_linorder)
qed

theorem vested_fallback_witness:
  "0 \<le> total_grant_shares negative_vesting \<and>
   out_of_range negative_vesting (dict_get (vested_shares_input negative_vesting) 2026
      (dict_get (vested_shares_input negative_vesting) 2025 (Some 0))) \<and>
   (\<exists>prev v.
      lookup (calculate_results negative_vesting None None None) 2025 Vested_Shares = Some prev \<and>
      lookup (calculate_results negative_vesting None None None) 2026 Vested_Shares = Some v \<and>
      0 \<le> v \<and> v \<le> 100000 \<and> v = min (prev + 5000) 100000)"
proof -
  have G: "0 \<le> total_grant_shares negative_vesting"
    by (simp add: negative_vesting_def eval_inputs)
  have o: "out_of_range negative_vesting (dict_get (vested_shares_input negative_vesting) 2026
      (dict_get (vested_shares_input negative_vesting) 2025 (Some 0)))"
    by (simp add: negative_vesting_def eval_inputs out_of_range_def)
  have t: "total_grant_shares negative_vesting = 100000"
    by (simp add: negative_vesting_def eval_inputs)
  from vested_fallback[OF G, of None None None] o
  have "\<exists>prev v.
      lookup (calculate_results negative_vesting None None None) 2025 Vested_Shares = Some prev \<and>
      lookup (calculate_results negative_vesting None None None) 2026 Vested_Shares = Some v \<and>
      0 \<le> v \<and> v \<le> 100000 \<and> v = min (prev + 5000) 100000"
    unfolding t by (fastforce dest!: bspec[where x = 2026])
  with G o show ?thesis by blast
qed

text \<open>
  Claim C4. For every input and every year from 2025 to 2035 of the returned table, the
  cumulative common shares redeemed and the unsold common shares add up to
  \<^verbatim>\<open>total_common_shares\<close> exactly.
\<close>

theorem common_conservation:
  fixes gl :: "real globals"
  shows "\<forall>y\<in>{2025..2035}. \<exists>cum unsold.
      lookup (calculate_results gl growth_rate custom_common custom_option) y Cumulative_Common_Redeemed = Some cum \<and>
      lookup (calculate_results gl growth_rate custom_common custom_option) y Unsold_Common_Shares = Some unsold \<and>
      cum + unsold = total_common_shares gl"
  by (simp add: lookup_final final_value_def unsold_common_def cum_common_def common_n_sum)

theorem common_conservation_witness:
  "\<exists>cum unsold.
      lookup (calculate_results ui_defaults None None None) 2030 Cumulative_Common_Redeemed = Some cum \<and>
      lookup (calculate_results ui_defaults None None None) 2030 Unsold_Common_Shares = Some unsold \<and>
      cum + unsold = 30000"
  using common_conservation[of ui_defaults None None None]
  by (auto simp: ui_defaults_def dest!: bspec[where x = 2030])

text \<open>
  Claim C5. For every input, the share price of 2024 in the returned table is exactly 6.00,
  and for every year from 2025 to 2035 the share price is the price of the year before
  multiplied by one plus the growth rate in force.
\<close>

theorem share_price_recurrence:
  fixes gl :: "real globals"
  shows "lookup (calculate_results gl growth_rate custom_common custom_option) 2024 Share_Price = Some 6.00 \<and>
   (\<forall>y\<in>{2025..2035}. \<exists>p q.
      lookup (calculate_results gl growth_rate custom_common custom_option) y Share_Price = Some p \<and>
      lookup (calculate_results gl growth_rate custom_common custom_option) (y - 1) Share_Price = Some q \<and>
      p = q * (1 + rate_or growth_rate (pbt_growth_rate gl)))"
  by (simp add: lookup_final final_value_def price_2024 price_step)

theorem share_price_recurrence_witness:
  "lookup (calculate_results ui_defaults None None None) 2024 Share_Price = Some 6.00 \<and>
   (\<exists>p q. lookup (calculate_results ui_defaults None None None) 2030 Share_Price = Some p \<and>
      lookup (calculate_results ui_defaults None None None) 2029 Share_Price = Some q \<and>
      p = q * (1 + 0.20))"
  using share_price_recurrence[of ui_defaults None None None]
  by (auto simp: rate_or_def ui_defaults_def dest!: bspec[where x = 2030])

text \<open>
  Claim C6, as stated, fails: with a growth rate that is NaN, and with one that is
  infinite, the engine returns a table, whose share price of 2025 is NaN, respectively
  infinite.
\<close>

theorem non_finite_growth_accepted:
  "lookup (calculate_results nan_growth None None None) 2025 Share_Price = Some NaN \<and>
   lookup (calculate_results infinite_growth None None None) 2025 Share_Price = Some PosInf"
  by (simp add: lookup_final final_value_def price_def rate_or_def nan_growth_def
      infinite_growth_def to_float_def numeral_pyfloat times_pyfloat_def plus_pyfloat_def
      one_pyfloat_def)

text \<open>
  Claim C6, amended. The engine does not validate its inputs: for every input, finite or
  not, it returns a table with a record for each year from 2024 to 2035 and never fails;
  when the growth rate in force is NaN, the share price of every year from 2025 to 2035 in
  the returned table is NaN.
\<close>

theorem non_finite_inputs_not_rejected:
  fixes gl :: "pyfloat globals"
  shows "(\<exists>t. calculate_results gl growth_rate custom_common custom_option = Some t \<and>
        dom t = {2024..2035}) \<and>
     (rate_or growth_rate (pbt_growth_rate gl) = NaN \<longrightarrow>
        (\<forall>y\<in>{2025..2035}.
           lookup (calculate_results gl growth_rate custom_common custom_option) y Share_Price =
             Some NaN))"
proof (intro conjI impI ballI)
  show "\<exists>t. calculate_results gl growth_rate custom_common custom_option = Some t \<and>
        dom t = {2024..2035}"
    using calculate_results_final[of gl growth_rate custom_common custom_option] by blast
next
  fix y :: int
  assume "rate_or growth_rate (pbt_growth_rate gl) = NaN" and "y \<in> {2025..2035}"
  then show "lookup (calculate_results gl growth_rate custom_common custom_option) y Share_Price =
      Some NaN"
    by (simp add: lookup_final final_value_def price_nan)
qed

theorem non_finite_inputs_not_rejected_witness:
  "pbt_growth_rate nan_growth = NaN \<and>
   (\<exists>t. calculate_results nan_growth None None None = Some t \<and> dom t = {2024..2035}) \<and>
   lookup (calculate_results nan_growth None None None) 2030 Share_Price = Some NaN"
proof -
  have n: "rate_or None (pbt_growth_rate nan_growth) = NaN"
    by (simp add: rate_or_def nan_growth_def)
  from non_finite_inputs_not_rejected[of nan_growth None None None] n
  have "(\<exists>t. calculate_results nan_growth None None None = Some t \<and> dom t = {2024..2035}) \<and>
     lookup (calculate_results nan_growth None None None) 2030 Share_Price = Some NaN"
    by simp
  then show ?thesis by (simp add: nan_growth_def)
qed

text \<open>
  Claim C7. For every input and every year from 2025 to 2035, the combined total of the
  returned table is the sum of that year's total common share value and total grant value.
\<close>

theorem combined_total_is_sum:
  fixes gl :: "real globals"
  shows "\<forall>y\<in>{2025..2035}. \<exists>a b s.
      lookup (calculate_results gl growth_rate custom_common custom_option) y Total_Common_Share_Value = Some a \<and>
      lookup (calculate_results gl growth_rate custom_common custom_option) y Total_Grant_Value = Some b \<and>
      lookup (calculate_results gl growth_rate custom_common custom_option) y Combined_Total_Value = Some s \<and>
      s = a + b"
  by (simp add: lookup_final final_value_def)

theorem combined_total_is_sum_witness:
  "\<exists>a b s.
      lookup (calculate_results ui_defaults None None None) 2030 Total_Common_Share_Value = Some a \<and>
      lookup (calculate_results ui_defaults None None None) 2030 Total_Grant_Value = Some b \<and>
      lookup (calculate_results ui_defaults None None None) 2030 Combined_Total_Value = Some s \<and>
      s = a + b"
  using combined_total_is_sum[of ui_defaults None None None]
  by (auto dest!: bspec[where x = 2030])






text \<open>
  Claim C10. When the common redemption rate in force lies in [0, 1] and the total of
  common shares is not negative, the unsold common shares do not increase from one year
  to the next over 2025 to 2035: the value of each year from 2026 to 2035 is at most the
  value of the year before.
\<close>

theorem unsold_common_non_increasing:
  fixes gl :: "real globals"
  assumes "0 \<le> rate_or custom_common (common_redemption_rate gl)"
    and "rate_or custom_common (common_redemption_rate gl) \<le> 1"
    and "0 \<le> total_common_shares gl"
  shows "\<forall>y\<in>{2026..2035}. \<exists>u u'.
      lookup (calculate_results gl growth_rate custom_common custom_option) y Unsold_Common_Shares = Some u \<and>
      lookup (calculate_results gl growth_rate custom_common custom_option) (y - 1) Unsold_Common_Shares = Some u' \<and>
      u \<le> u'"
  using unsold_common_mono[OF assms(3) assms(1,2)]
  by (simp add: lookup_final final_value_def)

theorem unsold_common_non_increasing_witness:
  "\<exists>u u'.
      lookup (calculate_results ui_defaults None None None) 2030 Unsold_Common_Shares = Some u \<and>
      lookup (calculate_results ui_defaults None None None) 2029 Unsold_Common_Shares = Some u' \<and>
      u \<le> u'"
proof -
  have "\<forall>y\<in>{2026..2035}. \<exists>u u'.
      lookup (calculate_results ui_defaults None None None) y Unsold_Common_Shares = Some u \<and>
      lookup (calculate_results ui_defaults None None None) (y - 1) Unsold_Common_Shares = Some u' \<and>
      u \<le> u'"
    by (rule unsold_common_non_increasing) (simp_all add: rate_or_def ui_defaults_def)
  then show ?thesis by (auto dest!: bspec[where x = 2030])
qed

end
